theory Spec2Isabelle
  imports Main "HOL-Library.Sublist"
begin

section \<open>Yandex Calendar client (scripts/yacal.py)\<close>

text \<open>
  A shallow embedding of \<^verbatim>\<open>YandexCalendarClient\<close> and of the \<^verbatim>\<open>events\<close>
  branch of \<^verbatim>\<open>main\<close>. The CalDAV and iCalendar libraries are outside the program:
  their objects appear as records holding what the program reads from them and writes
  to them, and an exception the program raises or lets through is a value of
  \<open>py_error\<close> on the left of a sum.
\<close>

subsection \<open>Python values\<close>

datatype py_error = ValueError | AttributeError | OverflowError

text \<open>
  A Python \<^verbatim>\<open>str\<close> is the list of the bytes of its UTF-8 encoding: equality,
  concatenation and the substring test are the same on the bytes as on the code points.
\<close>

text \<open>Truthiness of an \<^verbatim>\<open>Optional[str]\<close>: \<^verbatim>\<open>None\<close> and \<^verbatim>\<open>""\<close> are false.\<close>

fun truthy :: "string option \<Rightarrow> bool" where
  "truthy None = False"
| "truthy (Some s) = (s \<noteq> [])"

text \<open>\<^verbatim>\<open>str(x)\<close> of an \<^verbatim>\<open>Optional[str]\<close>, also in an f-string.\<close>

fun py_str :: "string option \<Rightarrow> string" where
  "py_str None = ''None''"
| "py_str (Some s) = s"

text \<open>\<^verbatim>\<open>str(ical.get(key, ''))\<close> for a text property.\<close>

fun str_or_empty :: "string option \<Rightarrow> string" where
  "str_or_empty None = []"
| "str_or_empty (Some s) = s"

text \<open>\<^verbatim>\<open>needle in haystack\<close> on strings: a scan over every start position.\<close>

fun py_in :: "string \<Rightarrow> string \<Rightarrow> bool" where
  "py_in needle [] = (needle = [])"
| "py_in needle (c # cs) = (prefix needle (c # cs) \<or> py_in needle cs)"

subsection \<open>Dates and durations\<close>

text \<open>
  A naive \<^verbatim>\<open>datetime.datetime\<close> is a day and a time of day: \<open>dt_ordinal\<close> is the
  proleptic Gregorian ordinal of the date (1 is 0001-01-01, \<open>MAXORDINAL\<close> is 9999-12-31),
  \<open>dt_micro\<close> the microseconds since 00:00:00.000000 of that day. A
  \<^verbatim>\<open>datetime.timedelta\<close> is its total number of microseconds.
\<close>

record datetime =
  dt_ordinal :: int
  dt_micro :: int

type_synonym timedelta = int

definition MAXORDINAL :: int where
  "MAXORDINAL = 3652059"

definition US_PER_DAY :: int where
  "US_PER_DAY = 86400000000"

definition MAX_DELTA_DAYS :: int where
  "MAX_DELTA_DAYS = 999999999"

text \<open>The microseconds of \<^verbatim>\<open>timedelta(days=d, hours=h, minutes=m)\<close>.\<close>

definition timedelta_us :: "int \<Rightarrow> int \<Rightarrow> int \<Rightarrow> timedelta" where
  "timedelta_us d h m = d * US_PER_DAY + h * 3600000000 + m * 60000000"

text \<open>
  \<^verbatim>\<open>timedelta(days=d, hours=h, minutes=m)\<close>: the normalised number of days has to
  lie within \<open>MAX_DELTA_DAYS\<close> of zero, else the constructor raises OverflowError.
\<close>

definition timedelta :: "int \<Rightarrow> int \<Rightarrow> int \<Rightarrow> py_error + timedelta" where
  "timedelta d h m =
     (let us = timedelta_us d h m in
      if - MAX_DELTA_DAYS \<le> us div US_PER_DAY \<and> us div US_PER_DAY \<le> MAX_DELTA_DAYS
      then Inr us else Inl OverflowError)"

text \<open>\<^verbatim>\<open>dt + delta\<close>: OverflowError when the date leaves the years 1 to 9999.\<close>

definition dt_add :: "datetime \<Rightarrow> timedelta \<Rightarrow> py_error + datetime" where
  "dt_add t delta =
     (let total = dt_ordinal t * US_PER_DAY + dt_micro t + delta;
          day = total div US_PER_DAY
      in if 1 \<le> day \<and> day \<le> MAXORDINAL
         then Inr \<lparr>dt_ordinal = day, dt_micro = total mod US_PER_DAY\<rparr>
         else Inl OverflowError)"

text \<open>\<^verbatim>\<open>dt.replace(hour=0, minute=0, second=0, microsecond=0)\<close>.\<close>

definition replace_midnight :: "datetime \<Rightarrow> datetime" where
  "replace_midnight t = t\<lparr>dt_micro := 0\<rparr>"

text \<open>
  The system clock: reading number \<open>n\<close> from now on returns \<open>c n\<close>.
  \<^verbatim>\<open>datetime.datetime.now()\<close> takes the next reading.
\<close>

type_synonym clock = "nat \<Rightarrow> datetime"

definition now :: "clock \<Rightarrow> datetime \<times> clock" where
  "now c = (c 0, \<lambda>n. c (Suc n))"

subsection \<open>Calendar objects\<close>

text \<open>
  An iCalendar component (\<^verbatim>\<open>event.icalendar_component\<close>, \<^verbatim>\<open>IEvent()\<close>): its name and
  the properties the program reads or writes, each absent (\<open>None\<close>) or present with a
  value of the property's type. \<open>subcomponents\<close> holds the alarms added with
  \<^verbatim>\<open>add_component\<close>.
\<close>

type_synonym vrecur = "(string \<times> string list) list"

record alarm =
  action :: string
  alarm_description :: string
  trigger :: timedelta

record component =
  comp_name :: string
  uid :: "string option"
  summary :: "string option"
  description :: "string option"
  location :: "string option"
  dtstart :: "datetime option"
  dtend :: "datetime option"
  dtstamp :: "datetime option"
  status :: "string option"
  completed :: "datetime option"
  rrule :: "vrecur option"
  subcomponents :: "alarm list"

text \<open>
  A CalDAV object (\<^verbatim>\<open>caldav.Event\<close>, a todo): the component held locally and the
  copy the server holds. \<^verbatim>\<open>save()\<close> writes the local component to the server,
  \<^verbatim>\<open>delete()\<close> removes the server's copy.
\<close>

record event =
  icalendar_component :: component
  remote :: "component option"

definition save :: "event \<Rightarrow> event" where
  "save e = e\<lparr>remote := Some (icalendar_component e)\<rparr>"

definition delete :: "event \<Rightarrow> event" where
  "delete e = e\<lparr>remote := None\<rparr>"

text \<open>
  Objects are mutable and shared, so they live in a store and the lists the server
  returns hold their addresses.
\<close>

type_synonym ref = nat
type_synonym store = "ref \<Rightarrow> event"

text \<open>
  A \<^verbatim>\<open>caldav.Calendar\<close>: \<open>events\<close> and \<open>date_search\<close> are what the methods of these
  names return; \<open>todos\<close> is \<open>None\<close> when \<^verbatim>\<open>todos()\<close> raises AttributeError.
\<close>

record calendar =
  name :: "string option"
  url :: string
  events :: "ref list"
  todos :: "ref list option"
  date_search :: "datetime option \<Rightarrow> datetime option \<Rightarrow> ref list"

subsection \<open>Construction\<close>

definition YANDEX_CALDAV_URL :: string where
  "YANDEX_CALDAV_URL = ''https://caldav.yandex.ru/''"

record dav_client =
  dav_url :: string
  dav_headers :: "(string \<times> string) list"
  dav_username :: "string option"
  dav_password :: "string option"

record yandex_calendar_client =
  token :: "string option"
  username :: "string option"
  password :: "string option"
  user_id :: "string option"
  client :: dav_client

text \<open>\<^verbatim>\<open>YandexCalendarClient.__init__\<close>.\<close>

definition init ::
  "string option \<Rightarrow> string option \<Rightarrow> string option \<Rightarrow> string option \<Rightarrow>
   py_error + yandex_calendar_client" where
  "init tok usr pwd uid' =
     (if truthy tok then
        Inr \<lparr>token = tok, username = usr, password = pwd, user_id = uid',
             client = \<lparr>dav_url = YANDEX_CALDAV_URL,
                       dav_headers = [(''Authorization'', ''OAuth '' @ py_str tok)],
                       dav_username = None, dav_password = None\<rparr>\<rparr>
      else if truthy usr \<and> truthy pwd then
        Inr \<lparr>token = tok, username = usr, password = pwd, user_id = uid',
             client = \<lparr>dav_url = YANDEX_CALDAV_URL, dav_headers = [],
                       dav_username = usr, dav_password = pwd\<rparr>\<rparr>
      else Inl ValueError)"

subsection \<open>Calendar resolution\<close>

text \<open>
  \<^verbatim>\<open>get_calendars()\<close> returns the server's list; the functions below take it as
  \<open>calendars\<close>. A calendar object is always true in a condition.
\<close>

text \<open>\<^verbatim>\<open>get_calendar\<close>.\<close>

definition get_calendar :: "calendar list \<Rightarrow> string option \<Rightarrow> calendar option" where
  "get_calendar calendars nm =
     (if calendars = [] then None
      else if truthy nm then find (\<lambda>cal. name cal = nm) calendars
      else Some (hd calendars))"

text \<open>\<^verbatim>\<open>get_todo_calendar\<close>.\<close>

definition get_todo_calendar :: "calendar list \<Rightarrow> calendar option" where
  "get_todo_calendar calendars = find (\<lambda>cal. py_in ''todos'' (url cal)) calendars"

subsection \<open>Events\<close>

text \<open>\<^verbatim>\<open>if not calendar: calendar = self.get_calendar()\<close>.\<close>

definition default_calendar :: "calendar list \<Rightarrow> calendar option \<Rightarrow> calendar option" where
  "default_calendar calendars calendar =
     (case calendar of None \<Rightarrow> get_calendar calendars None | Some cal \<Rightarrow> Some cal)"

text \<open>\<^verbatim>\<open>get_events\<close>.\<close>

definition get_events ::
  "calendar list \<Rightarrow> calendar option \<Rightarrow> datetime option \<Rightarrow> datetime option \<Rightarrow> ref list" where
  "get_events calendars calendar start end' =
     (case default_calendar calendars calendar of
        None \<Rightarrow> []
      | Some cal \<Rightarrow> date_search cal start end')"

text \<open>
  The field assignments of \<^verbatim>\<open>update_event\<close>, each under its \<^verbatim>\<open>if\<close>; a
  \<^verbatim>\<open>datetime\<close> is always true in a condition.
\<close>

definition set_summary :: "string option \<Rightarrow> component \<Rightarrow> component" where
  "set_summary title ical = (if truthy title then ical\<lparr>summary := title\<rparr> else ical)"

definition set_description :: "string option \<Rightarrow> component \<Rightarrow> component" where
  "set_description desc ical = (if truthy desc then ical\<lparr>description := desc\<rparr> else ical)"

definition set_location :: "string option \<Rightarrow> component \<Rightarrow> component" where
  "set_location loc ical = (if truthy loc then ical\<lparr>location := loc\<rparr> else ical)"

definition set_dtstart :: "datetime option \<Rightarrow> component \<Rightarrow> component" where
  "set_dtstart start ical = (case start of None \<Rightarrow> ical | Some s \<Rightarrow> ical\<lparr>dtstart := Some s\<rparr>)"

definition set_dtend :: "datetime option \<Rightarrow> component \<Rightarrow> component" where
  "set_dtend end' ical = (case end' of None \<Rightarrow> ical | Some e \<Rightarrow> ical\<lparr>dtend := Some e\<rparr>)"

definition apply_fields ::
  "string option \<Rightarrow> string option \<Rightarrow> string option \<Rightarrow> datetime option \<Rightarrow> datetime option \<Rightarrow>
   component \<Rightarrow> component" where
  "apply_fields title desc loc start end' ical =
     set_dtend end' (set_dtstart start (set_location loc (set_description desc (set_summary title ical))))"

text \<open>The identifier the loops compare with \<open>uid\<close>: \<^verbatim>\<open>str(ical.get('uid'))\<close>.\<close>

abbreviation event_uid :: "event \<Rightarrow> string" where
  "event_uid e \<equiv> py_str (uid (icalendar_component e))"

text \<open>The loop of \<^verbatim>\<open>update_event\<close> over \<^verbatim>\<open>calendar.events()\<close>.\<close>

fun update_scan ::
  "store \<Rightarrow> string \<Rightarrow> string option \<Rightarrow> string option \<Rightarrow> string option \<Rightarrow>
   datetime option \<Rightarrow> datetime option \<Rightarrow> ref list \<Rightarrow> ref option \<times> store" where
  "update_scan h u title desc loc start end' [] = (None, h)"
| "update_scan h u title desc loc start end' (r # rs) =
     (let ical = icalendar_component (h r) in
      if event_uid (h r) = u then
        (Some r,
         h(r := save ((h r)\<lparr>icalendar_component := apply_fields title desc loc start end' ical\<rparr>)))
      else update_scan h u title desc loc start end' rs)"

text \<open>
  \<^verbatim>\<open>update_event\<close>: with no calendar, \<^verbatim>\<open>calendar.events()\<close> is an attribute
  access on \<^verbatim>\<open>None\<close>.
\<close>

definition update_event ::
  "calendar list \<Rightarrow> store \<Rightarrow> string \<Rightarrow> string option \<Rightarrow> string option \<Rightarrow> string option \<Rightarrow>
   datetime option \<Rightarrow> datetime option \<Rightarrow> calendar option \<Rightarrow> py_error + ref option \<times> store" where
  "update_event calendars h u title desc loc start end' calendar =
     (case default_calendar calendars calendar of
        None \<Rightarrow> Inl AttributeError
      | Some cal \<Rightarrow> Inr (update_scan h u title desc loc start end' (events cal)))"

text \<open>\<^verbatim>\<open>delete_event\<close> and its loop.\<close>

fun delete_scan :: "store \<Rightarrow> string \<Rightarrow> ref list \<Rightarrow> bool \<times> store" where
  "delete_scan h u [] = (False, h)"
| "delete_scan h u (r # rs) =
     (if event_uid (h r) = u then (True, h(r := delete (h r)))
      else delete_scan h u rs)"

definition delete_event ::
  "calendar list \<Rightarrow> store \<Rightarrow> string \<Rightarrow> calendar option \<Rightarrow> py_error + bool \<times> store" where
  "delete_event calendars h u calendar =
     (case default_calendar calendars calendar of
        None \<Rightarrow> Inl AttributeError
      | Some cal \<Rightarrow> Inr (delete_scan h u (events cal)))"

text \<open>
  \<^verbatim>\<open>search_events\<close>. \<open>lower\<close> stands for \<^verbatim>\<open>str.lower\<close>, whose Unicode case
  tables are not part of the program.
\<close>

definition event_text :: "component \<Rightarrow> string" where
  "event_text ical =
     str_or_empty (summary ical) @ str_or_empty (description ical) @ str_or_empty (location ical)"

definition search_events ::
  "(string \<Rightarrow> string) \<Rightarrow> calendar list \<Rightarrow> store \<Rightarrow> string \<Rightarrow> calendar option \<Rightarrow>
   py_error + ref list" where
  "search_events lower calendars h query calendar =
     (case default_calendar calendars calendar of
        None \<Rightarrow> Inl AttributeError
      | Some cal \<Rightarrow>
          Inr (filter (\<lambda>r. py_in (lower query) (lower (event_text (icalendar_component (h r)))))
                 (events cal)))"

text \<open>\<^verbatim>\<open>str.lower\<close> on ASCII text.\<close>

definition ascii_lower_char :: "char \<Rightarrow> char" where
  "ascii_lower_char c =
     (let n = (of_char c :: nat) in if 65 \<le> n \<and> n \<le> 90 then char_of (n + 32) else c)"

definition ascii_lower :: "string \<Rightarrow> string" where
  "ascii_lower s = map ascii_lower_char s"

text \<open>
  The payload of \<^verbatim>\<open>create_event\<close>: the \<^verbatim>\<open>ICalendar\<close> it builds, and what
  \<^verbatim>\<open>calendar.save_event\<close> is called with (\<^verbatim>\<open>to_ical\<close>, the library's serialiser, is
  left out: the saved data is the object built).
\<close>

record icalendar =
  prodid :: string
  version :: string
  components :: "component list"

record saved_event =
  saved_calendar :: calendar
  saved_data :: icalendar

definition save_event :: "calendar \<Rightarrow> icalendar \<Rightarrow> saved_event" where
  "save_event cal data = \<lparr>saved_calendar = cal, saved_data = data\<rparr>"

definition IEvent :: component where
  "IEvent = \<lparr>comp_name = ''VEVENT'', uid = None, summary = None, description = None,
              location = None, dtstart = None, dtend = None, dtstamp = None, status = None,
              completed = None, rrule = None, subcomponents = []\<rparr>"

text \<open>The prefix of the alarm's description, in UTF-8.\<close>

definition REMINDER_PREFIX :: string where
  "REMINDER_PREFIX =
     [CHR 0xD0, CHR 0x9D, CHR 0xD0, CHR 0xB0, CHR 0xD0, CHR 0xBF, CHR 0xD0, CHR 0xBE,
      CHR 0xD0, CHR 0xBC, CHR 0xD0, CHR 0xB8, CHR 0xD0, CHR 0xBD, CHR 0xD0, CHR 0xB0,
      CHR 0xD0, CHR 0xBD, CHR 0xD0, CHR 0xB8, CHR 0xD0, CHR 0xB5, CHR 0x3A, CHR 0x20]"

text \<open>\<^verbatim>\<open>if reminder_minutes:\<close> and its block; the integer 0 is false.\<close>

definition add_alarm :: "string \<Rightarrow> int option \<Rightarrow> component \<Rightarrow> py_error + component" where
  "add_alarm title reminder_minutes ev =
     (case reminder_minutes of
        None \<Rightarrow> Inr ev
      | Some m \<Rightarrow>
          if m = 0 then Inr ev
          else (case timedelta 0 0 (- m) of
                  Inl err \<Rightarrow> Inl err
                | Inr delta \<Rightarrow>
                    Inr (ev\<lparr>subcomponents := subcomponents ev @
                           [\<lparr>action = ''DISPLAY'', alarm_description = REMINDER_PREFIX @ title,
                             trigger = delta\<rparr>]\<rparr>)))"

text \<open>
  \<^verbatim>\<open>if rrule:\<close> and its block. \<open>from_ical\<close> stands for the library's
  \<^verbatim>\<open>vRecur.from_ical\<close>, which raises on a text it does not accept.
\<close>

definition add_rrule ::
  "(string \<Rightarrow> py_error + vrecur) \<Rightarrow> string option \<Rightarrow> component \<Rightarrow> py_error + component" where
  "add_rrule from_ical rule ev =
     (if truthy rule then
        (case from_ical (py_str rule) of
           Inl err \<Rightarrow> Inl err
         | Inr rrule_obj \<Rightarrow> Inr (ev\<lparr>rrule := Some rrule_obj\<rparr>))
      else Inr ev)"

text \<open>
  \<^verbatim>\<open>create_event\<close>, in the order of the source: the event with its texts, the times
  (\<open>start\<close>, \<open>end\<close> and the stamp, each \<^verbatim>\<open>now()\<close> a reading of the clock), the alarm,
  the recurrence rule, and the call of \<^verbatim>\<open>calendar.save_event\<close>, an attribute access on
  \<^verbatim>\<open>None\<close> when there is no calendar.
\<close>

definition base_event :: "string \<Rightarrow> string \<Rightarrow> string \<Rightarrow> component" where
  "base_event title desc loc =
     (let ev0 = IEvent\<lparr>summary := Some title\<rparr>;
          ev1 = (if desc \<noteq> [] then ev0\<lparr>description := Some desc\<rparr> else ev0);
          ev2 = (if loc \<noteq> [] then ev1\<lparr>location := Some loc\<rparr> else ev1)
      in ev2)"

definition event_times ::
  "clock \<Rightarrow> datetime option \<Rightarrow> datetime option \<Rightarrow> py_error + datetime \<times> datetime \<times> datetime" where
  "event_times clk start end' =
     (let (start', clk') = (case start of None \<Rightarrow> now clk | Some s \<Rightarrow> (s, clk))
      in case (case end' of None \<Rightarrow> dt_add start' (timedelta_us 0 1 0) | Some e \<Rightarrow> Inr e) of
           Inl err \<Rightarrow> Inl err
         | Inr end'' \<Rightarrow> Inr (start', end'', fst (now clk')))"

definition create_event ::
  "(string \<Rightarrow> py_error + vrecur) \<Rightarrow> clock \<Rightarrow> calendar list \<Rightarrow> string \<Rightarrow> string \<Rightarrow> string \<Rightarrow>
   datetime option \<Rightarrow> datetime option \<Rightarrow> int option \<Rightarrow> string option \<Rightarrow> calendar option \<Rightarrow>
   py_error + saved_event" where
  "create_event from_ical clk calendars title desc loc start end' reminder_minutes rule calendar =
     (let calendar' = default_calendar calendars calendar
      in case event_times clk start end' of
           Inl err \<Rightarrow> Inl err
         | Inr (start', end'', stamp) \<Rightarrow>
             (case add_alarm title reminder_minutes
                     ((base_event title desc loc)\<lparr>dtstart := Some start', dtend := Some end'',
                                                   dtstamp := Some stamp\<rparr>) of
                Inl err \<Rightarrow> Inl err
              | Inr ev4 \<Rightarrow>
                  (case add_rrule from_ical rule ev4 of
                     Inl err \<Rightarrow> Inl err
                   | Inr ev5 \<Rightarrow>
                       (case calendar' of
                          None \<Rightarrow> Inl AttributeError
                        | Some cal \<Rightarrow>
                            Inr (save_event cal
                                   \<lparr>prodid = ''-//Yandex Calendar CLI//'', version = ''2.0'',
                                    components = [ev5]\<rparr>)))))"

subsection \<open>Todos\<close>

text \<open>\<^verbatim>\<open>get_todos\<close>, with its fallback when \<^verbatim>\<open>todos()\<close> raises AttributeError.\<close>

definition get_todos :: "calendar list \<Rightarrow> store \<Rightarrow> calendar option \<Rightarrow> ref list" where
  "get_todos calendars h todo_calendar =
     (case (case todo_calendar of None \<Rightarrow> get_todo_calendar calendars | Some cal \<Rightarrow> Some cal) of
        None \<Rightarrow> []
      | Some cal \<Rightarrow>
          (case todos cal of
             Some ts \<Rightarrow> ts
           | None \<Rightarrow> filter (\<lambda>r. comp_name (icalendar_component (h r)) = ''VTODO'') (events cal)))"

text \<open>\<^verbatim>\<open>complete_todo\<close> and its loop.\<close>

fun complete_scan :: "clock \<Rightarrow> store \<Rightarrow> string \<Rightarrow> ref list \<Rightarrow> bool \<times> store" where
  "complete_scan clk h u [] = (False, h)"
| "complete_scan clk h u (r # rs) =
     (let ical = icalendar_component (h r) in
      if event_uid (h r) = u then
        (True,
         h(r := save ((h r)\<lparr>icalendar_component :=
                        ical\<lparr>status := Some ''COMPLETED'', completed := Some (fst (now clk))\<rparr>\<rparr>)))
      else complete_scan clk h u rs)"

definition complete_todo ::
  "clock \<Rightarrow> calendar list \<Rightarrow> store \<Rightarrow> string \<Rightarrow> calendar option \<Rightarrow> bool \<times> store" where
  "complete_todo clk calendars h u todo_calendar =
     (let todo_calendar' =
            (case todo_calendar of None \<Rightarrow> get_todo_calendar calendars | Some cal \<Rightarrow> Some cal)
      in complete_scan clk h u (get_todos calendars h todo_calendar'))"

text \<open>\<^verbatim>\<open>delete_todo\<close>; its loop is that of \<^verbatim>\<open>delete_event\<close>.\<close>

definition delete_todo ::
  "calendar list \<Rightarrow> store \<Rightarrow> string \<Rightarrow> calendar option \<Rightarrow> bool \<times> store" where
  "delete_todo calendars h u todo_calendar =
     (let todo_calendar' =
            (case todo_calendar of None \<Rightarrow> get_todo_calendar calendars | Some cal \<Rightarrow> Some cal)
      in delete_scan h u (get_todos calendars h todo_calendar'))"

subsection \<open>The \<^verbatim>\<open>events\<close> command\<close>

text \<open>
  The branch \<^verbatim>\<open>args.command == 'events'\<close> of \<^verbatim>\<open>main\<close>, from the parsed arguments.
  \<open>parse_date\<close> stands for the date parser of \<^verbatim>\<open>dateutil\<close>. The outcome is the list
  of events handed to \<^verbatim>\<open>event_to_dict\<close> for printing, an exit with a message, or an
  exception caught by the handler at the end of \<^verbatim>\<open>main\<close>.
\<close>

record events_args =
  today :: bool
  from_date :: "string option"
  to_date :: "string option"
  calendar_name :: "string option"

datatype outcome = Printed "ref list" | Exit1 string | Failed py_error

definition date_range ::
  "(string \<Rightarrow> py_error + datetime) \<Rightarrow> clock \<Rightarrow> events_args \<Rightarrow> py_error + datetime \<times> datetime" where
  "date_range parse_date clk args =
     (if today args then
        (let start = replace_midnight (fst (now clk)) in
         case dt_add start (timedelta_us 1 0 0) of
           Inl err \<Rightarrow> Inl err
         | Inr end' \<Rightarrow> Inr (start, end'))
      else
        (case (if truthy (from_date args) then parse_date (py_str (from_date args))
               else Inr (fst (now clk))) of
           Inl err \<Rightarrow> Inl err
         | Inr start \<Rightarrow>
             (case (if truthy (to_date args) then parse_date (py_str (to_date args))
                    else dt_add start (timedelta_us 7 0 0)) of
                Inl err \<Rightarrow> Inl err
              | Inr end' \<Rightarrow> Inr (start, end'))))"

definition cmd_events ::
  "(string \<Rightarrow> py_error + datetime) \<Rightarrow> clock \<Rightarrow> calendar list \<Rightarrow> events_args \<Rightarrow> outcome" where
  "cmd_events parse_date clk calendars args =
     (case date_range parse_date clk args of
        Inl err \<Rightarrow> Failed err
      | Inr (start, end') \<Rightarrow>
          (case get_calendar calendars (calendar_name args) of
             None \<Rightarrow> Exit1 ''Error: No calendar found''
           | Some cal \<Rightarrow> Printed (get_events calendars (Some cal) (Some start) (Some end'))))"

subsection \<open>Fixtures\<close>

text \<open>
  A calendar as the unit tests build it (\<^verbatim>\<open>FakeCalendar\<close>), for worked examples. As
  in the tests, its \<open>date_search\<close> returns its arguments: here the day and the time of
  day of \<open>start\<close> and of \<open>end\<close>, as four addresses.
\<close>

definition echo_search :: "datetime option \<Rightarrow> datetime option \<Rightarrow> ref list" where
  "echo_search start end' =
     (case (start, end') of
        (Some s, Some e) \<Rightarrow> [nat (dt_ordinal s), nat (dt_micro s), nat (dt_ordinal e), nat (dt_micro e)]
      | _ \<Rightarrow> [])"

definition FakeCalendar :: "string \<Rightarrow> string \<Rightarrow> ref list \<Rightarrow> calendar" where
  "FakeCalendar nm u evs =
     \<lparr>name = Some nm, url = u, events = evs, todos = Some [], date_search = echo_search\<rparr>"

text \<open>
  An event as the unit tests build it (\<^verbatim>\<open>FakeEvent(ICalComp(uid=..., summary=...,
  description=..., location=...))\<close>), and a store holding one such event at address 0
  and another one everywhere else.
\<close>

definition ICalComp :: "string \<Rightarrow> string \<Rightarrow> string \<Rightarrow> string \<Rightarrow> component" where
  "ICalComp u s d l = IEvent\<lparr>uid := Some u, summary := Some s, description := Some d, location := Some l\<rparr>"

definition FakeEvent :: "component \<Rightarrow> event" where
  "FakeEvent ical = \<lparr>icalendar_component = ical, remote = Some ical\<rparr>"

definition two_events :: "event \<Rightarrow> event \<Rightarrow> store" where
  "two_events e0 e1 = (\<lambda>r. if r = 0 then e0 else e1)"

text \<open>
  A todo as the unit tests build it (\<^verbatim>\<open>FakeEvent(ICalComp(uid=..., status=...))\<close>), a
  calendar whose \<^verbatim>\<open>todos()\<close> returns the given list, and a clock that stands still.
\<close>

definition FakeTodo :: "string \<Rightarrow> string \<Rightarrow> event" where
  "FakeTodo u st = FakeEvent (IEvent\<lparr>comp_name := ''VTODO'', uid := Some u, status := Some st\<rparr>)"

definition FakeTodoCalendar :: "string \<Rightarrow> ref list \<Rightarrow> calendar" where
  "FakeTodoCalendar u tds = (FakeCalendar ''cal'' u [])\<lparr>todos := Some tds\<rparr>"

definition fixed_clock :: "datetime \<Rightarrow> clock" where
  "fixed_clock t = (\<lambda>n. t)"

section \<open>Properties\<close>

subsection \<open>Auxiliary facts\<close>

lemma py_in_sublist: "py_in needle hay \<longleftrightarrow> sublist needle hay"
  by (induction hay) (auto simp: sublist_Cons_right)

lemma find_first:
  "find P xs = Some x \<longleftrightarrow> (\<exists>i<length xs. xs ! i = x \<and> P x \<and> (\<forall>j<i. \<not> P (xs ! j)))"
  by (auto simp: find_Some_iff)

subsection \<open>Construction\<close>

text \<open>
  C3, as the code has it: construction raises ValueError exactly when the token is
  omitted or empty and the username or the password is omitted or empty; it succeeds
  exactly when the token is a non-empty string or username and password both are.
\<close>

theorem init_auth:
  "(init tok usr pwd uid' = Inl ValueError \<longleftrightarrow> \<not> truthy tok \<and> \<not> (truthy usr \<and> truthy pwd)) \<and>
   ((\<exists>c. init tok usr pwd uid' = Inr c) \<longleftrightarrow> truthy tok \<or> (truthy usr \<and> truthy pwd))"
  by (simp add: init_def)

theorem init_auth_witness:
  "init (Some ''t'') None None None \<noteq> Inl ValueError \<and>
   init None (Some ''u'') None None = Inl ValueError"
  using init_auth [of "Some ''t''" None None None] init_auth [of None "Some ''u''" None None]
  by simp

text \<open>
  C3 as stated fails: a token that is supplied as the empty string, with no username
  and password, is a supplied authentication mode, and construction raises.
\<close>

theorem init_empty_token_counterexample:
  "init (Some []) None None None = Inl ValueError"
  by (simp add: init_def)

subsection \<open>Calendar resolution\<close>

text \<open>
  C5, as the code has it: with a non-empty name, \<open>get_calendar\<close> returns the first
  calendar of the list whose name equals it and \<open>None\<close> when there is none; with the
  name omitted or empty it returns the first calendar of the list, \<open>None\<close> for the
  empty list.
\<close>

theorem get_calendar_resolves:
  "(truthy nm \<longrightarrow>
      (get_calendar calendars nm = None \<longleftrightarrow> (\<forall>cal \<in> set calendars. name cal \<noteq> nm)) \<and>
      (\<forall>cal. get_calendar calendars nm = Some cal \<longleftrightarrow>
         (\<exists>i<length calendars. calendars ! i = cal \<and> name cal = nm \<and>
            (\<forall>j<i. name (calendars ! j) \<noteq> nm)))) \<and>
   (\<not> truthy nm \<longrightarrow>
      get_calendar calendars nm = (case calendars of [] \<Rightarrow> None | cal # _ \<Rightarrow> Some cal))"
  by (cases calendars) (auto simp: get_calendar_def find_None_iff find_first simp del: find.simps)

theorem get_calendar_resolves_witness:
  "truthy (Some ''b'') \<and>
   get_calendar [FakeCalendar ''a'' ''https://x/1'' [], FakeCalendar ''b'' ''https://x/2'' []] (Some ''b'') =
     Some (FakeCalendar ''b'' ''https://x/2'' []) \<and>
   get_calendar [FakeCalendar ''a'' ''https://x/1'' [], FakeCalendar ''b'' ''https://x/2'' []] (Some ''missing'') = None \<and>
   \<not> truthy None \<and>
   get_calendar [FakeCalendar ''a'' ''https://x/1'' [], FakeCalendar ''b'' ''https://x/2'' []] None =
     Some (FakeCalendar ''a'' ''https://x/1'' [])"
proof -
  let ?a = "FakeCalendar ''a'' ''https://x/1'' []" and ?b = "FakeCalendar ''b'' ''https://x/2'' []"
  have t: "truthy (Some ''b'')" "truthy (Some ''missing'')" "\<not> truthy None" by simp_all
  have "\<exists>i<length [?a, ?b]. [?a, ?b] ! i = ?b \<and> name ?b = Some ''b'' \<and>
          (\<forall>j<i. name ([?a, ?b] ! j) \<noteq> Some ''b'')"
    by (rule exI [of _ 1]) (simp add: FakeCalendar_def)
  with get_calendar_resolves [of "Some ''b''" "[?a, ?b]"] t
  have 1: "get_calendar [?a, ?b] (Some ''b'') = Some ?b" by blast
  have "\<forall>cal \<in> set [?a, ?b]. name cal \<noteq> Some ''missing''"
    by (simp add: FakeCalendar_def)
  with get_calendar_resolves [of "Some ''missing''" "[?a, ?b]"] t
  have 2: "get_calendar [?a, ?b] (Some ''missing'') = None" by blast
  from get_calendar_resolves [of None "[?a, ?b]"] t
  have 3: "get_calendar [?a, ?b] None = Some ?a" by simp
  from t 1 2 3 show ?thesis by simp
qed

text \<open>
  C5 as stated fails: the empty string is a supplied name that no calendar has, and
  \<open>get_calendar\<close> returns the first calendar instead of \<open>None\<close>.
\<close>

theorem get_calendar_empty_name_counterexample:
  "get_calendar [FakeCalendar ''a'' ''https://x/cal'' []] (Some []) =
     Some (FakeCalendar ''a'' ''https://x/cal'' [])"
  by (simp add: get_calendar_def)

text \<open>
  C6: \<open>get_todo_calendar\<close> returns the first calendar of the list whose address
  contains \<^verbatim>\<open>todos\<close>, and \<open>None\<close> when no address contains it, whatever other
  calendars there are.
\<close>

theorem get_todo_calendar_first:
  "(get_todo_calendar calendars = None \<longleftrightarrow> (\<forall>cal \<in> set calendars. \<not> sublist ''todos'' (url cal))) \<and>
   (\<forall>cal. get_todo_calendar calendars = Some cal \<longleftrightarrow>
      (\<exists>i<length calendars. calendars ! i = cal \<and> sublist ''todos'' (url cal) \<and>
         (\<forall>j<i. \<not> sublist ''todos'' (url (calendars ! j)))))"
  by (auto simp: get_todo_calendar_def find_None_iff find_first py_in_sublist)

theorem get_todo_calendar_first_witness:
  "get_todo_calendar [FakeCalendar ''cal'' ''https://x/1'' [], FakeCalendar ''cal'' ''https://x/todos/2'' []] =
     Some (FakeCalendar ''cal'' ''https://x/todos/2'' []) \<and>
   get_todo_calendar [FakeCalendar ''cal'' ''https://x/1'' []] = None"
proof -
  let ?a = "FakeCalendar ''cal'' ''https://x/1'' []" and ?b = "FakeCalendar ''cal'' ''https://x/todos/2'' []"
  have na: "\<not> sublist ''todos'' (url ?a)"
    by (simp add: FakeCalendar_def py_in_sublist [symmetric])
  have yb: "sublist ''todos'' (url ?b)"
    by (simp add: FakeCalendar_def py_in_sublist [symmetric])
  have "\<exists>i<length [?a, ?b]. [?a, ?b] ! i = ?b \<and> sublist ''todos'' (url ?b) \<and>
          (\<forall>j<i. \<not> sublist ''todos'' (url ([?a, ?b] ! j)))"
    using na yb by (intro exI [of _ 1]) simp
  with get_todo_calendar_first [of "[?a, ?b]"]
  have 1: "get_todo_calendar [?a, ?b] = Some ?b" by blast
  have "\<forall>cal \<in> set [?a]. \<not> sublist ''todos'' (url cal)" using na by simp
  with get_todo_calendar_first [of "[?a]"]
  have 2: "get_todo_calendar [?a] = None" by blast
  from 1 2 show ?thesis by simp
qed

subsection \<open>Updating an event\<close>

lemma update_scan_none:
  "\<forall>r \<in> set rs. event_uid (h r) \<noteq> u \<Longrightarrow> update_scan h u title desc loc start end' rs = (None, h)"
  by (induction rs) simp_all

lemma update_scan_found:
  "update_scan h u title desc loc start end' rs = (Some m, h') \<Longrightarrow>
     m \<in> set rs \<and> event_uid (h m) = u \<and>
     h' = h(m := save ((h m)\<lparr>icalendar_component :=
                        apply_fields title desc loc start end' (icalendar_component (h m))\<rparr>))"
  by (induction rs) (auto simp: Let_def split: if_splits)

lemma update_scan_title_empty:
  "update_scan h u (Some []) desc loc start end' rs = update_scan h u None desc loc start end' rs"
  by (induction rs) (simp_all add: apply_fields_def set_summary_def)

lemma update_scan_desc_empty:
  "update_scan h u title (Some []) loc start end' rs = update_scan h u title None loc start end' rs"
  by (induction rs) (simp_all add: apply_fields_def set_description_def)

lemma update_scan_loc_empty:
  "update_scan h u title desc (Some []) start end' rs = update_scan h u title desc None start end' rs"
  by (induction rs) (simp_all add: apply_fields_def set_location_def)

lemmas set_defs = apply_fields_def set_summary_def set_description_def set_location_def
  set_dtstart_def set_dtend_def

text \<open>
  C2: in a calendar whose events are two objects of which exactly one has the identifier
  \<open>u\<close>, \<open>update_event\<close> returns that object, leaves every other object of the store as
  it was, writes the object's component to the server, sets each supplied (non-empty)
  field to the value given, leaves each omitted field and every other property as it
  was; when no event of the calendar has the identifier, it returns \<open>None\<close> and the
  store is unchanged.
\<close>

theorem update_event_frame:
  assumes cal: "default_calendar calendars calendar = Some cal"
  shows
    "(events cal = [a, b] \<longrightarrow> (event_uid (h a) = u) \<noteq> (event_uid (h b) = u) \<longrightarrow>
       (\<exists>m h' c c'.
          m = (if event_uid (h a) = u then a else b) \<and>
          update_event calendars h u title desc loc start end' calendar = Inr (Some m, h') \<and>
          (\<forall>r. r \<noteq> m \<longrightarrow> h' r = h r) \<and>
          c = icalendar_component (h m) \<and> c' = icalendar_component (h' m) \<and>
          remote (h' m) = Some c' \<and>
          (title = None \<longrightarrow> summary c' = summary c) \<and>
          (truthy title \<longrightarrow> summary c' = title) \<and>
          (desc = None \<longrightarrow> description c' = description c) \<and>
          (truthy desc \<longrightarrow> description c' = desc) \<and>
          (loc = None \<longrightarrow> location c' = location c) \<and>
          (truthy loc \<longrightarrow> location c' = loc) \<and>
          (start = None \<longrightarrow> dtstart c' = dtstart c) \<and>
          (start \<noteq> None \<longrightarrow> dtstart c' = start) \<and>
          (end' = None \<longrightarrow> dtend c' = dtend c) \<and>
          (end' \<noteq> None \<longrightarrow> dtend c' = end') \<and>
          comp_name c' = comp_name c \<and> uid c' = uid c \<and> dtstamp c' = dtstamp c \<and>
          status c' = status c \<and> completed c' = completed c \<and> rrule c' = rrule c \<and>
          subcomponents c' = subcomponents c)) \<and>
     ((\<forall>r \<in> set (events cal). event_uid (h r) \<noteq> u) \<longrightarrow>
        update_event calendars h u title desc loc start end' calendar = Inr (None, h))"
proof (intro conjI impI)
  assume "\<forall>r \<in> set (events cal). event_uid (h r) \<noteq> u"
  then show "update_event calendars h u title desc loc start end' calendar = Inr (None, h)"
    by (simp add: update_event_def cal update_scan_none)
next
  assume ev: "events cal = [a, b]" and one: "(event_uid (h a) = u) \<noteq> (event_uid (h b) = u)"
  define m where "m = (if event_uid (h a) = u then a else b)"
  define c where "c = icalendar_component (h m)"
  define h' where "h' = h(m := save ((h m)\<lparr>icalendar_component :=
                        apply_fields title desc loc start end' c\<rparr>))"
  define c' where "c' = icalendar_component (h' m)"
  have run: "update_event calendars h u title desc loc start end' calendar = Inr (Some m, h')"
    using one by (auto simp: update_event_def cal ev m_def h'_def c_def Let_def)
  have c'_eq: "c' = apply_fields title desc loc start end' c"
    by (simp add: c'_def h'_def save_def)
  have frame: "\<forall>r. r \<noteq> m \<longrightarrow> h' r = h r" by (simp add: h'_def)
  have pers: "remote (h' m) = Some c'" by (simp add: c'_def h'_def save_def)
  have f1: "title = None \<longrightarrow> summary c' = summary c" "truthy title \<longrightarrow> summary c' = title"
    by (simp_all add: c'_eq set_defs split: option.splits)
  have f2: "desc = None \<longrightarrow> description c' = description c" "truthy desc \<longrightarrow> description c' = desc"
    by (simp_all add: c'_eq set_defs split: option.splits)
  have f3: "loc = None \<longrightarrow> location c' = location c" "truthy loc \<longrightarrow> location c' = loc"
    by (simp_all add: c'_eq set_defs split: option.splits)
  have f4: "start = None \<longrightarrow> dtstart c' = dtstart c" "start \<noteq> None \<longrightarrow> dtstart c' = start"
    by (auto simp add: c'_eq set_defs split: option.splits)
  have f5: "end' = None \<longrightarrow> dtend c' = dtend c" "end' \<noteq> None \<longrightarrow> dtend c' = end'"
    by (auto simp add: c'_eq set_defs split: option.splits)
  have f6: "comp_name c' = comp_name c" "uid c' = uid c" "dtstamp c' = dtstamp c"
    "status c' = status c" "completed c' = completed c" "rrule c' = rrule c"
    "subcomponents c' = subcomponents c"
    by (simp_all add: c'_eq set_defs split: option.splits)
  show "\<exists>m h' c c'.
          m = (if event_uid (h a) = u then a else b) \<and>
          update_event calendars h u title desc loc start end' calendar = Inr (Some m, h') \<and>
          (\<forall>r. r \<noteq> m \<longrightarrow> h' r = h r) \<and>
          c = icalendar_component (h m) \<and> c' = icalendar_component (h' m) \<and>
          remote (h' m) = Some c' \<and>
          (title = None \<longrightarrow> summary c' = summary c) \<and>
          (truthy title \<longrightarrow> summary c' = title) \<and>
          (desc = None \<longrightarrow> description c' = description c) \<and>
          (truthy desc \<longrightarrow> description c' = desc) \<and>
          (loc = None \<longrightarrow> location c' = location c) \<and>
          (truthy loc \<longrightarrow> location c' = loc) \<and>
          (start = None \<longrightarrow> dtstart c' = dtstart c) \<and>
          (start \<noteq> None \<longrightarrow> dtstart c' = start) \<and>
          (end' = None \<longrightarrow> dtend c' = dtend c) \<and>
          (end' \<noteq> None \<longrightarrow> dtend c' = end') \<and>
          comp_name c' = comp_name c \<and> uid c' = uid c \<and> dtstamp c' = dtstamp c \<and>
          status c' = status c \<and> completed c' = completed c \<and> rrule c' = rrule c \<and>
          subcomponents c' = subcomponents c"
    apply (rule exI [of _ m], rule exI [of _ h'], rule exI [of _ c], rule exI [of _ c'])
    using run frame pers f1 f2 f3 f4 f5 f6 c_def c'_def m_def by blast
qed

theorem update_event_frame_witness:
  "default_calendar [FakeCalendar ''cal'' ''https://x/cal'' [0, 1]] None =
     Some (FakeCalendar ''cal'' ''https://x/cal'' [0, 1]) \<and>
   events (FakeCalendar ''cal'' ''https://x/cal'' [0, 1]) = [0, 1] \<and>
   event_uid (two_events (FakeEvent (ICalComp ''u1'' ''old'' ''d'' ''l''))
                (FakeEvent (ICalComp ''u2'' ''other'' ''text'' ''place'')) 0) = ''u1'' \<and>
   event_uid (two_events (FakeEvent (ICalComp ''u1'' ''old'' ''d'' ''l''))
                (FakeEvent (ICalComp ''u2'' ''other'' ''text'' ''place'')) 1) \<noteq> ''u1'' \<and>
   (\<exists>h'. update_event [FakeCalendar ''cal'' ''https://x/cal'' [0, 1]]
            (two_events (FakeEvent (ICalComp ''u1'' ''old'' ''d'' ''l''))
               (FakeEvent (ICalComp ''u2'' ''other'' ''text'' ''place'')))
            ''u1'' (Some ''new'') None None None None None = Inr (Some 0, h') \<and>
          summary (icalendar_component (h' 0)) = Some ''new'' \<and>
          description (icalendar_component (h' 0)) = Some ''d'' \<and>
          remote (h' 0) = Some (icalendar_component (h' 0)) \<and>
          h' 1 = FakeEvent (ICalComp ''u2'' ''other'' ''text'' ''place'')) \<and>
   update_event [FakeCalendar ''cal'' ''https://x/cal'' [0, 1]]
     (two_events (FakeEvent (ICalComp ''u1'' ''old'' ''d'' ''l''))
        (FakeEvent (ICalComp ''u2'' ''other'' ''text'' ''place'')))
     ''x'' (Some ''new'') None None None None None =
     Inr (None, two_events (FakeEvent (ICalComp ''u1'' ''old'' ''d'' ''l''))
                  (FakeEvent (ICalComp ''u2'' ''other'' ''text'' ''place'')))"
proof -
  let ?cal = "FakeCalendar ''cal'' ''https://x/cal'' [0, 1]"
  let ?e0 = "FakeEvent (ICalComp ''u1'' ''old'' ''d'' ''l'')"
  let ?e1 = "FakeEvent (ICalComp ''u2'' ''other'' ''text'' ''place'')"
  let ?h = "two_events ?e0 ?e1"
  have cal: "default_calendar [?cal] None = Some ?cal"
    by (simp add: default_calendar_def get_calendar_def)
  have ev: "events ?cal = [0, 1]" by (simp add: FakeCalendar_def)
  have u0: "event_uid (?h 0) = ''u1''" and u1: "event_uid (?h 1) \<noteq> ''u1''"
    and x0: "event_uid (?h 0) \<noteq> ''x''" and x1: "event_uid (?h 1) \<noteq> ''x''"
    by (simp_all add: two_events_def FakeEvent_def ICalComp_def)
  have d0: "description (icalendar_component (?h 0)) = Some ''d''"
    and h1: "?h 1 = ?e1"
    by (simp_all add: two_events_def FakeEvent_def ICalComp_def)
  note inst = update_event_frame [OF cal, of 0 1 ?h]
  from inst [of "''u1''" "Some ''new''" None None None None] ev u0 u1 d0 h1
  have 1: "\<exists>h'. update_event [?cal] ?h ''u1'' (Some ''new'') None None None None None = Inr (Some 0, h') \<and>
          summary (icalendar_component (h' 0)) = Some ''new'' \<and>
          description (icalendar_component (h' 0)) = Some ''d'' \<and>
          remote (h' 0) = Some (icalendar_component (h' 0)) \<and>
          h' 1 = ?e1"
    by (auto simp del: fun_upd_apply)
  from inst [of "''x''" "Some ''new''" None None None None] ev x0 x1
  have 2: "update_event [?cal] ?h ''x'' (Some ''new'') None None None None None = Inr (None, ?h)"
    by simp
  from cal ev u0 u1 1 2 show ?thesis by blast
qed



lemma update_event_found:
  assumes "update_event calendars h u title desc loc start end' calendar = Inr (Some m, h')"
  shows "h' = h(m := save ((h m)\<lparr>icalendar_component :=
                        apply_fields title desc loc start end' (icalendar_component (h m))\<rparr>))"
proof (cases "default_calendar calendars calendar")
  case None
  with assms show ?thesis by (simp add: update_event_def)
next
  case (Some cal)
  with assms have "update_scan h u title desc loc start end' (events cal) = (Some m, h')"
    by (simp add: update_event_def)
  from update_scan_found [OF this] show ?thesis by simp
qed

text \<open>
  C10: for title, description and location, \<open>update_event\<close> with the empty string
  supplied does what it does with the argument omitted, and the field of the matched
  event keeps its value.
\<close>

theorem update_event_empty_as_omitted:
  "update_event calendars h u (Some []) desc loc start end' calendar =
     update_event calendars h u None desc loc start end' calendar \<and>
   update_event calendars h u title (Some []) loc start end' calendar =
     update_event calendars h u title None loc start end' calendar \<and>
   update_event calendars h u title desc (Some []) start end' calendar =
     update_event calendars h u title desc None start end' calendar \<and>
   (\<forall>m h'. update_event calendars h u (Some []) desc loc start end' calendar = Inr (Some m, h') \<longrightarrow>
      summary (icalendar_component (h' m)) = summary (icalendar_component (h m))) \<and>
   (\<forall>m h'. update_event calendars h u title (Some []) loc start end' calendar = Inr (Some m, h') \<longrightarrow>
      description (icalendar_component (h' m)) = description (icalendar_component (h m))) \<and>
   (\<forall>m h'. update_event calendars h u title desc (Some []) start end' calendar = Inr (Some m, h') \<longrightarrow>
      location (icalendar_component (h' m)) = location (icalendar_component (h m)))"
proof -
  have a: "update_event calendars h u (Some []) desc loc start end' calendar =
     update_event calendars h u None desc loc start end' calendar"
    by (simp add: update_event_def update_scan_title_empty cong: option.case_cong)
  have b: "update_event calendars h u title (Some []) loc start end' calendar =
     update_event calendars h u title None loc start end' calendar"
    by (simp add: update_event_def update_scan_desc_empty cong: option.case_cong)
  have c: "update_event calendars h u title desc (Some []) start end' calendar =
     update_event calendars h u title desc None start end' calendar"
    by (simp add: update_event_def update_scan_loc_empty cong: option.case_cong)
  have d: "summary (icalendar_component (h' m)) = summary (icalendar_component (h m))"
    if "update_event calendars h u (Some []) desc loc start end' calendar = Inr (Some m, h')" for m h'
    using update_event_found [OF that] by (simp add: save_def set_defs split: option.splits)
  have e: "description (icalendar_component (h' m)) = description (icalendar_component (h m))"
    if "update_event calendars h u title (Some []) loc start end' calendar = Inr (Some m, h')" for m h'
    using update_event_found [OF that] by (simp add: save_def set_defs split: option.splits)
  have f: "location (icalendar_component (h' m)) = location (icalendar_component (h m))"
    if "update_event calendars h u title desc (Some []) start end' calendar = Inr (Some m, h')" for m h'
    using update_event_found [OF that] by (simp add: save_def set_defs split: option.splits)
  from a b c d e f show ?thesis by blast
qed

lemma two_events_apply:
  "two_events e0 e1 0 = e0" "r \<noteq> 0 \<Longrightarrow> two_events e0 e1 r = e1"
  by (simp_all add: two_events_def)

lemma one_calendar_default:
  "default_calendar [cal] None = Some cal"
  by (simp add: default_calendar_def get_calendar_def)

theorem update_event_empty_as_omitted_witness:
  "update_event [FakeCalendar ''cal'' ''https://x/cal'' [0, 1]]
     (two_events (FakeEvent (ICalComp ''u1'' ''old'' ''d'' ''l''))
        (FakeEvent (ICalComp ''u2'' ''other'' ''text'' ''place'')))
     ''u1'' (Some []) (Some []) (Some []) None None None =
   Inr (Some 0,
        (two_events (FakeEvent (ICalComp ''u1'' ''old'' ''d'' ''l''))
           (FakeEvent (ICalComp ''u2'' ''other'' ''text'' ''place'')))
        (0 := FakeEvent (ICalComp ''u1'' ''old'' ''d'' ''l''))) \<and>
   summary (icalendar_component
     (((two_events (FakeEvent (ICalComp ''u1'' ''old'' ''d'' ''l''))
           (FakeEvent (ICalComp ''u2'' ''other'' ''text'' ''place'')))
        (0 := FakeEvent (ICalComp ''u1'' ''old'' ''d'' ''l''))) 0)) = Some ''old'' \<and>
   description (icalendar_component
     (((two_events (FakeEvent (ICalComp ''u1'' ''old'' ''d'' ''l''))
           (FakeEvent (ICalComp ''u2'' ''other'' ''text'' ''place'')))
        (0 := FakeEvent (ICalComp ''u1'' ''old'' ''d'' ''l''))) 0)) = Some ''d'' \<and>
   location (icalendar_component
     (((two_events (FakeEvent (ICalComp ''u1'' ''old'' ''d'' ''l''))
           (FakeEvent (ICalComp ''u2'' ''other'' ''text'' ''place'')))
        (0 := FakeEvent (ICalComp ''u1'' ''old'' ''d'' ''l''))) 0)) = Some ''l''"
proof -
  let ?cal = "FakeCalendar ''cal'' ''https://x/cal'' [0, 1]"
  let ?e0 = "FakeEvent (ICalComp ''u1'' ''old'' ''d'' ''l'')"
  let ?e1 = "FakeEvent (ICalComp ''u2'' ''other'' ''text'' ''place'')"
  let ?h = "two_events ?e0 ?e1"
  have ev: "\<And>n a evs. events (FakeCalendar n a evs) = evs" by (simp add: FakeCalendar_def)
  have sv: "save (?e0\<lparr>icalendar_component := apply_fields None None None None None (icalendar_component ?e0)\<rparr>) = ?e0"
    by (simp add: FakeEvent_def save_def set_defs)
  have u0: "event_uid ?e0 = ''u1''" by (simp add: FakeEvent_def ICalComp_def)
  have old: "summary (icalendar_component (?h 0)) = Some ''old''"
    "description (icalendar_component (?h 0)) = Some ''d''"
    "location (icalendar_component (?h 0)) = Some ''l''"
    by (simp_all add: two_events_apply FakeEvent_def ICalComp_def)
  have run: "update_event [?cal] ?h ''u1'' None None None None None None = Inr (Some 0, ?h(0 := ?e0))"
    by (simp add: update_event_def one_calendar_default ev two_events_apply sv u0)
  note a = update_event_empty_as_omitted [where calendars = "[?cal]" and h = ?h and u = "''u1''"
      and title = "Some []" and desc = "Some []" and loc = "Some []" and start = None
      and end' = None and calendar = None]
  note b = update_event_empty_as_omitted [where calendars = "[?cal]" and h = ?h and u = "''u1''"
      and title = None and desc = "Some []" and loc = "Some []" and start = None
      and end' = None and calendar = None]
  note c = update_event_empty_as_omitted [where calendars = "[?cal]" and h = ?h and u = "''u1''"
      and title = None and desc = None and loc = "Some []" and start = None
      and end' = None and calendar = None]
  from a b c run
  have run': "update_event [?cal] ?h ''u1'' (Some []) (Some []) (Some []) None None None =
        Inr (Some 0, ?h(0 := ?e0))"
    by simp
  from a run' have "summary (icalendar_component ((?h(0 := ?e0)) 0)) = summary (icalendar_component (?h 0))"
    "description (icalendar_component ((?h(0 := ?e0)) 0)) = description (icalendar_component (?h 0))"
    "location (icalendar_component ((?h(0 := ?e0)) 0)) = location (icalendar_component (?h 0))"
    by blast+
  with run' old show ?thesis by (simp del: fun_upd_apply)
qed

subsection \<open>Operations without a calendar\<close>

text \<open>
  The operations that guard the missing calendar return an empty result when the
  calendar list is empty.
\<close>

lemma guarded_without_calendar:
  "get_events [] None start end' = []"
  "get_todos [] h None = []"
  "complete_todo clk [] h u None = (False, h)"
  "delete_todo [] h u None = (False, h)"
  by (simp_all add: get_events_def get_todos_def complete_todo_def delete_todo_def
      default_calendar_def get_calendar_def get_todo_calendar_def)

text \<open>
  C1 does not hold of the code: with an empty calendar list and no calendar given,
  \<open>update_event\<close>, \<open>delete_event\<close> and \<open>search_events\<close> call \<^verbatim>\<open>events()\<close> on
  \<^verbatim>\<open>None\<close> and raise AttributeError instead of returning \<open>None\<close>, \<open>False\<close> or the
  empty list.
\<close>

theorem not_found_without_calendar_raises:
  "update_event [] h u title desc loc start end' None = Inl AttributeError \<and>
   delete_event [] h u None = Inl AttributeError \<and>
   search_events lower [] h query None = Inl AttributeError"
  by (simp add: update_event_def delete_event_def search_events_def default_calendar_def
      get_calendar_def)

subsection \<open>Searching\<close>

text \<open>
  C4 does not hold of the code for the empty calendar list: there
  \<open>search_events\<close> raises AttributeError, where the claim has it return the events
  that match, of which there are none.
\<close>

theorem search_events_without_calendar_raises:
  "search_events lower [] h query None = Inl AttributeError"
  by (simp add: search_events_def default_calendar_def get_calendar_def)

text \<open>
  Where a calendar is given or the list has one, \<open>search_events\<close> returns the events of
  the calendar, in their order, whose lowercased title, description and location,
  concatenated, contain the lowercased query.
\<close>

lemma search_events_matches:
  assumes "default_calendar calendars calendar = Some cal"
  shows "search_events lower calendars h query calendar =
           Inr (filter (\<lambda>r. sublist (lower query)
                              (lower (str_or_empty (summary (icalendar_component (h r))) @
                                      str_or_empty (description (icalendar_component (h r))) @
                                      str_or_empty (location (icalendar_component (h r))))))
                  (events cal))"
  using assms by (simp add: search_events_def event_text_def py_in_sublist)

lemma ascii_lower_example:
  "ascii_lower ''ALP'' = ''alp''" "ascii_lower ''alp'' = ''alp''"
  "ascii_lower ''AlphaBetaGamma'' = ''alphabetagamma''"
  "ascii_lower ''Othertextplace'' = ''othertextplace''"
  by code_simp+

lemma search_events_alpha_example:
  "search_events ascii_lower [FakeCalendar ''cal'' ''https://x/cal'' [0, 1]]
     (two_events (FakeEvent (ICalComp ''1'' ''Alpha'' ''Beta'' ''Gamma''))
        (FakeEvent (ICalComp ''2'' ''Other'' ''text'' ''place'')))
     ''alp'' None = Inr [0]"
  "search_events ascii_lower [FakeCalendar ''cal'' ''https://x/cal'' [0, 1]]
     (two_events (FakeEvent (ICalComp ''1'' ''Alpha'' ''Beta'' ''Gamma''))
        (FakeEvent (ICalComp ''2'' ''Other'' ''text'' ''place'')))
     ''ALP'' None = Inr [0]"
  by (simp_all add: search_events_def default_calendar_def get_calendar_def FakeCalendar_def
      two_events_def FakeEvent_def ICalComp_def event_text_def ascii_lower_example)


subsection \<open>Todos\<close>

lemma get_todos_resolved:
  "get_todos calendars h (case todo_calendar of None \<Rightarrow> get_todo_calendar calendars | Some cal \<Rightarrow> Some cal) =
   get_todos calendars h todo_calendar"
  by (simp add: get_todos_def split: option.splits)

lemma complete_scan_none:
  "\<forall>r \<in> set rs. event_uid (h r) \<noteq> u \<Longrightarrow> complete_scan clk h u rs = (False, h)"
  by (induction rs) simp_all

lemma delete_scan_none:
  "\<forall>r \<in> set rs. event_uid (h r) \<noteq> u \<Longrightarrow> delete_scan h u rs = (False, h)"
  by (induction rs) simp_all

lemma complete_scan_first:
  "i < length rs \<Longrightarrow> event_uid (h (rs ! i)) = u \<Longrightarrow> \<forall>j<i. event_uid (h (rs ! j)) \<noteq> u \<Longrightarrow>
   complete_scan clk h u rs =
     (True, h(rs ! i := save ((h (rs ! i))\<lparr>icalendar_component :=
                (icalendar_component (h (rs ! i)))\<lparr>status := Some ''COMPLETED'',
                   completed := Some (fst (now clk))\<rparr>\<rparr>)))"
proof (induction rs arbitrary: i)
  case Nil
  then show ?case by simp
next
  case (Cons r rs)
  show ?case
  proof (cases i)
    case 0
    with Cons.prems show ?thesis by (simp add: Let_def fun_eq_iff)
  next
    case (Suc k)
    with Cons.prems have "event_uid (h r) \<noteq> u" by auto
    moreover from Suc Cons.prems have "k < length rs" "event_uid (h (rs ! k)) = u"
      "\<forall>j<k. event_uid (h (rs ! j)) \<noteq> u" by auto
    ultimately show ?thesis using Cons.IH [of k] Suc by (simp add: Let_def)
  qed
qed

lemma delete_scan_first:
  "i < length rs \<Longrightarrow> event_uid (h (rs ! i)) = u \<Longrightarrow> \<forall>j<i. event_uid (h (rs ! j)) \<noteq> u \<Longrightarrow>
   delete_scan h u rs = (True, h(rs ! i := delete (h (rs ! i))))"
proof (induction rs arbitrary: i)
  case Nil
  then show ?case by simp
next
  case (Cons r rs)
  show ?case
  proof (cases i)
    case 0
    with Cons.prems show ?thesis by (simp add: fun_eq_iff)
  next
    case (Suc k)
    with Cons.prems have "event_uid (h r) \<noteq> u" by auto
    moreover from Suc Cons.prems have "k < length rs" "event_uid (h (rs ! k)) = u"
      "\<forall>j<k. event_uid (h (rs ! j)) \<noteq> u" by auto
    ultimately show ?thesis using Cons.IH [of k] Suc by simp
  qed
qed

text \<open>
  C8: over the list \<open>ts\<close> that \<open>get_todos\<close> returns, \<open>complete_todo\<close> sets the status of
  the first todo with the identifier \<open>u\<close> to \<^verbatim>\<open>COMPLETED\<close> and its completion time to
  the clock's reading, saves it and returns \<open>True\<close>, and \<open>delete_todo\<close> deletes that todo
  and returns \<open>True\<close>; when no todo of the list has the identifier, both return
  \<open>False\<close> and the store is unchanged.
\<close>

theorem todo_complete_delete:
  assumes ts: "ts = get_todos calendars h todo_calendar"
  shows
    "((\<forall>r \<in> set ts. event_uid (h r) \<noteq> u) \<longrightarrow>
        complete_todo clk calendars h u todo_calendar = (False, h) \<and>
        delete_todo calendars h u todo_calendar = (False, h)) \<and>
     (\<forall>i<length ts. event_uid (h (ts ! i)) = u \<and> (\<forall>j<i. event_uid (h (ts ! j)) \<noteq> u) \<longrightarrow>
        complete_todo clk calendars h u todo_calendar =
          (True, h(ts ! i := save ((h (ts ! i))\<lparr>icalendar_component :=
                     (icalendar_component (h (ts ! i)))\<lparr>status := Some ''COMPLETED'',
                        completed := Some (fst (now clk))\<rparr>\<rparr>))) \<and>
        delete_todo calendars h u todo_calendar = (True, h(ts ! i := delete (h (ts ! i)))))"
proof -
  have c: "complete_todo clk calendars h u todo_calendar = complete_scan clk h u ts"
    by (simp add: complete_todo_def get_todos_resolved ts)
  have d: "delete_todo calendars h u todo_calendar = delete_scan h u ts"
    by (simp add: delete_todo_def get_todos_resolved ts)
  show ?thesis
    unfolding c d
    by (intro conjI impI allI) (simp_all add: complete_scan_none delete_scan_none
        complete_scan_first delete_scan_first)
qed

theorem todo_complete_delete_witness:
  "complete_todo (fixed_clock \<lparr>dt_ordinal = 739617, dt_micro = 0\<rparr>)
     [FakeTodoCalendar ''https://x/todos'' [0]]
     (two_events (FakeTodo ''todo1'' ''NEEDS-ACTION'') (FakeTodo ''todo2'' ''NEEDS-ACTION''))
     ''todo1'' None =
   (True,
    (two_events (FakeTodo ''todo1'' ''NEEDS-ACTION'') (FakeTodo ''todo2'' ''NEEDS-ACTION''))
      (0 := save ((FakeTodo ''todo1'' ''NEEDS-ACTION'')\<lparr>icalendar_component :=
           (icalendar_component (FakeTodo ''todo1'' ''NEEDS-ACTION''))\<lparr>status := Some ''COMPLETED'',
              completed := Some \<lparr>dt_ordinal = 739617, dt_micro = 0\<rparr>\<rparr>\<rparr>))) \<and>
   delete_todo [FakeTodoCalendar ''https://x/todos'' [0]]
     (two_events (FakeTodo ''todo1'' ''NEEDS-ACTION'') (FakeTodo ''todo2'' ''NEEDS-ACTION''))
     ''todo1'' None =
   (True,
    (two_events (FakeTodo ''todo1'' ''NEEDS-ACTION'') (FakeTodo ''todo2'' ''NEEDS-ACTION''))
      (0 := delete (FakeTodo ''todo1'' ''NEEDS-ACTION''))) \<and>
   delete_todo [FakeTodoCalendar ''https://x/todos'' [0]]
     (two_events (FakeTodo ''todo1'' ''NEEDS-ACTION'') (FakeTodo ''todo2'' ''NEEDS-ACTION''))
     ''missing'' None =
   (False, two_events (FakeTodo ''todo1'' ''NEEDS-ACTION'') (FakeTodo ''todo2'' ''NEEDS-ACTION''))"
proof -
  let ?clk = "fixed_clock \<lparr>dt_ordinal = 739617, dt_micro = 0\<rparr>"
  let ?cal = "FakeTodoCalendar ''https://x/todos'' [0]"
  let ?t0 = "FakeTodo ''todo1'' ''NEEDS-ACTION''"
  let ?h = "two_events ?t0 (FakeTodo ''todo2'' ''NEEDS-ACTION'')"
  have "py_in ''todos'' ''https://x/todos''" by simp
  then have ts: "[0] = get_todos [?cal] ?h None"
    by (simp add: get_todos_def get_todo_calendar_def FakeTodoCalendar_def FakeCalendar_def)
  have u0: "event_uid (?h ([0] ! 0)) = ''todo1''" and m0: "event_uid (?h ([0] ! 0)) \<noteq> ''missing''"
    by (simp_all add: two_events_apply FakeTodo_def FakeEvent_def)
  have nw: "fst (now ?clk) = \<lparr>dt_ordinal = 739617, dt_micro = 0\<rparr>"
    by (simp add: now_def fixed_clock_def)
  have h0: "?h ([0] ! 0) = ?t0" by (simp add: two_events_apply)
  from todo_complete_delete [OF ts, of "''todo1''" ?clk] u0
  have "complete_todo ?clk [?cal] ?h ''todo1'' None =
          (True, ?h([0] ! 0 := save ((?h ([0] ! 0))\<lparr>icalendar_component :=
                     (icalendar_component (?h ([0] ! 0)))\<lparr>status := Some ''COMPLETED'',
                        completed := Some (fst (now ?clk))\<rparr>\<rparr>))) \<and>
        delete_todo [?cal] ?h ''todo1'' None = (True, ?h([0] ! 0 := delete (?h ([0] ! 0))))"
    by simp
  then have 1: "complete_todo ?clk [?cal] ?h ''todo1'' None =
          (True, ?h(0 := save (?t0\<lparr>icalendar_component :=
                     (icalendar_component ?t0)\<lparr>status := Some ''COMPLETED'',
                        completed := Some \<lparr>dt_ordinal = 739617, dt_micro = 0\<rparr>\<rparr>\<rparr>)))"
    and 2: "delete_todo [?cal] ?h ''todo1'' None = (True, ?h(0 := delete ?t0))"
    unfolding nw h0 by simp_all
  from todo_complete_delete [OF ts, of "''missing''" ?clk] m0
  have 3: "delete_todo [?cal] ?h ''missing'' None = (False, ?h)" by simp
  from 1 2 3 show ?thesis by simp
qed


subsection \<open>The window of \<^verbatim>\<open>events --today\<close>\<close>

lemma midnight_plus_day:
  assumes "1 \<le> dt_ordinal t" "dt_ordinal t < MAXORDINAL"
  shows "dt_add (replace_midnight t) (timedelta_us 1 0 0) =
           Inr \<lparr>dt_ordinal = dt_ordinal t + 1, dt_micro = 0\<rparr>"
proof -
  have "(dt_ordinal t * 86400000000 + 86400000000) div 86400000000 = dt_ordinal t + 1"
    "(dt_ordinal t * 86400000000 + 86400000000) mod 86400000000 = 0"
    by simp_all
  with assms show ?thesis
    by (simp add: dt_add_def replace_midnight_def timedelta_us_def US_PER_DAY_def Let_def)
qed

lemma replace_midnight_eq:
  "replace_midnight t = \<lparr>dt_ordinal = dt_ordinal t, dt_micro = 0\<rparr>"
  by (simp add: replace_midnight_def)

text \<open>
  C9: on the \<^verbatim>\<open>events --today\<close> path with no \<^verbatim>\<open>--calendar\<close>, the range query is made
  on the first calendar of the list with \<open>start\<close> the clock's reading at
  00:00:00.000000 and \<open>end\<close> that value plus one day, both passed on as computed: on a
  day before the last one of the calendar, from midnight of that day to midnight of the
  next. No query is made when the list is empty, or when adding the day overflows.
\<close>

theorem events_today_window:
  assumes "today args" and "calendar_name args = None"
  shows
    "cmd_events parse_date clk calendars args =
       (case dt_add (replace_midnight (fst (now clk))) (timedelta_us 1 0 0) of
          Inl err \<Rightarrow> Failed err
        | Inr end' \<Rightarrow>
            (case calendars of
               [] \<Rightarrow> Exit1 ''Error: No calendar found''
             | cal # _ \<Rightarrow>
                 Printed (date_search cal (Some (replace_midnight (fst (now clk)))) (Some end')))) \<and>
     (\<forall>cal rest. calendars = cal # rest \<and> 1 \<le> dt_ordinal (fst (now clk)) \<and>
          dt_ordinal (fst (now clk)) < MAXORDINAL \<longrightarrow>
        cmd_events parse_date clk calendars args =
          Printed (date_search cal
                     (Some \<lparr>dt_ordinal = dt_ordinal (fst (now clk)), dt_micro = 0\<rparr>)
                     (Some \<lparr>dt_ordinal = dt_ordinal (fst (now clk)) + 1, dt_micro = 0\<rparr>)))"
proof -
  have a: "cmd_events parse_date clk calendars args =
       (case dt_add (replace_midnight (fst (now clk))) (timedelta_us 1 0 0) of
          Inl err \<Rightarrow> Failed err
        | Inr end' \<Rightarrow>
            (case calendars of
               [] \<Rightarrow> Exit1 ''Error: No calendar found''
             | cal # _ \<Rightarrow>
                 Printed (date_search cal (Some (replace_midnight (fst (now clk)))) (Some end'))))"
    using assms
    by (cases calendars)
      (simp_all add: cmd_events_def date_range_def get_calendar_def get_events_def
        default_calendar_def Let_def split: sum.splits)
  have b: "cmd_events parse_date clk calendars args =
          Printed (date_search cal
                     (Some \<lparr>dt_ordinal = dt_ordinal (fst (now clk)), dt_micro = 0\<rparr>)
                     (Some \<lparr>dt_ordinal = dt_ordinal (fst (now clk)) + 1, dt_micro = 0\<rparr>))"
    if "calendars = cal # rest" "1 \<le> dt_ordinal (fst (now clk))"
      "dt_ordinal (fst (now clk)) < MAXORDINAL" for cal rest
  proof -
    from that have "dt_add (replace_midnight (fst (now clk))) (timedelta_us 1 0 0) =
        Inr \<lparr>dt_ordinal = dt_ordinal (fst (now clk)) + 1, dt_micro = 0\<rparr>"
      by (simp add: midnight_plus_day)
    with that show ?thesis unfolding a by (simp add: replace_midnight_eq)
  qed
  from a b show ?thesis by blast
qed

theorem events_today_window_witness:
  "today \<lparr>today = True, from_date = None, to_date = None, calendar_name = None\<rparr> \<and>
   calendar_name \<lparr>today = True, from_date = None, to_date = None, calendar_name = None\<rparr> = None \<and>
   cmd_events (\<lambda>s. Inl ValueError) (fixed_clock \<lparr>dt_ordinal = 739617, dt_micro = 45296000000\<rparr>)
     [FakeCalendar ''a'' ''https://x/1'' [], FakeCalendar ''b'' ''https://x/2'' []]
     \<lparr>today = True, from_date = None, to_date = None, calendar_name = None\<rparr> =
   Printed [739617, 0, 739618, 0]"
proof -
  let ?args = "\<lparr>today = True, from_date = None, to_date = None, calendar_name = None\<rparr>"
  let ?clk = "fixed_clock \<lparr>dt_ordinal = 739617, dt_micro = 45296000000\<rparr>"
  let ?a = "FakeCalendar ''a'' ''https://x/1'' []"
  have h: "today ?args" "calendar_name ?args = None" by simp_all
  have n: "fst (now ?clk) = \<lparr>dt_ordinal = 739617, dt_micro = 45296000000\<rparr>"
    by (simp add: now_def fixed_clock_def)
  have r: "1 \<le> dt_ordinal (fst (now ?clk))" "dt_ordinal (fst (now ?clk)) < MAXORDINAL"
    by (simp_all add: n MAXORDINAL_def)
  from events_today_window [OF h, of "\<lambda>s. Inl ValueError" ?clk
      "[?a, FakeCalendar ''b'' ''https://x/2'' []]"] r
  have "cmd_events (\<lambda>s. Inl ValueError) ?clk [?a, FakeCalendar ''b'' ''https://x/2'' []] ?args =
          Printed (date_search ?a
                     (Some \<lparr>dt_ordinal = dt_ordinal (fst (now ?clk)), dt_micro = 0\<rparr>)
                     (Some \<lparr>dt_ordinal = dt_ordinal (fst (now ?clk)) + 1, dt_micro = 0\<rparr>))"
    by blast
  then have "cmd_events (\<lambda>s. Inl ValueError) ?clk [?a, FakeCalendar ''b'' ''https://x/2'' []] ?args =
          Printed [739617, 0, 739618, 0]"
    unfolding n by (simp add: FakeCalendar_def echo_search_def)
  with h show ?thesis by simp
qed


subsection \<open>Creating an event\<close>

lemma add_alarm_falsy:
  "reminder_minutes = None \<or> reminder_minutes = Some 0 \<Longrightarrow> add_alarm title reminder_minutes ev = Inr ev"
  by (auto simp: add_alarm_def)

lemma add_alarm_truthy:
  "m \<noteq> 0 \<Longrightarrow> timedelta 0 0 (- m) = Inr delta \<Longrightarrow>
   add_alarm title (Some m) ev =
     Inr (ev\<lparr>subcomponents := subcomponents ev @
            [\<lparr>action = ''DISPLAY'', alarm_description = REMINDER_PREFIX @ title, trigger = delta\<rparr>]\<rparr>)"
  by (simp add: add_alarm_def)

lemma timedelta_minutes:
  "timedelta 0 0 m = Inr delta \<Longrightarrow> delta = m * 60000000"
  by (simp add: timedelta_def timedelta_us_def Let_def split: if_splits)

lemma add_rrule_falsy:
  "\<not> truthy rule \<Longrightarrow> add_rrule from_ical rule ev = Inr ev"
  by (simp add: add_rrule_def)

lemma add_rrule_truthy:
  "s \<noteq> [] \<Longrightarrow> from_ical s = Inr r \<Longrightarrow> add_rrule from_ical (Some s) ev = Inr (ev\<lparr>rrule := Some r\<rparr>)"
  by (simp add: add_rrule_def)

lemma event_times_given:
  "event_times clk (Some s) (Some e) = Inr (s, e, fst (now clk))"
  "dt_add s (timedelta_us 0 1 0) = Inr e \<Longrightarrow> event_times clk (Some s) None = Inr (s, e, fst (now clk))"
  "event_times clk None (Some e) = Inr (fst (now clk), e, fst (now (snd (now clk))))"
  "dt_add (fst (now clk)) (timedelta_us 0 1 0) = Inr e \<Longrightarrow>
     event_times clk None None = Inr (fst (now clk), e, fst (now (snd (now clk))))"
  by (auto simp: event_times_def split: prod.splits)

lemma event_times_start:
  assumes "(case end' of None \<Rightarrow> dt_add (case start of None \<Rightarrow> fst (now clk) | Some s \<Rightarrow> s) (timedelta_us 0 1 0)
             | Some e \<Rightarrow> Inr e) = Inr end''"
  shows "\<exists>stamp. event_times clk start end' =
           Inr (case start of None \<Rightarrow> fst (now clk) | Some s \<Rightarrow> s, end'', stamp)"
  using assms by (cases start; cases end') (simp_all add: event_times_given)

lemma base_event_fields:
  "comp_name (base_event title desc loc) = ''VEVENT''"
  "summary (base_event title desc loc) = Some title"
  "description (base_event title desc loc) = (if desc = [] then None else Some desc)"
  "location (base_event title desc loc) = (if loc = [] then None else Some loc)"
  "subcomponents (base_event title desc loc) = []"
  "rrule (base_event title desc loc) = None"
  by (simp_all add: base_event_def IEvent_def Let_def)

lemma create_event_steps:
  assumes "default_calendar calendars calendar = Some cal"
    and "event_times clk start end' = Inr (start', end'', stamp)"
    and "add_alarm title reminder_minutes
           ((base_event title desc loc)\<lparr>dtstart := Some start', dtend := Some end'',
                                         dtstamp := Some stamp\<rparr>) = Inr ev4"
    and "add_rrule from_ical rule ev4 = Inr ev5"
  shows "create_event from_ical clk calendars title desc loc start end' reminder_minutes rule calendar =
           Inr (save_event cal \<lparr>prodid = ''-//Yandex Calendar CLI//'', version = ''2.0'',
                                components = [ev5]\<rparr>)"
  using assms by (simp add: create_event_def)

lemma add_alarm_result:
  assumes "\<forall>m. reminder_minutes = Some m \<longrightarrow> m \<noteq> 0 \<longrightarrow> (\<exists>delta. timedelta 0 0 (- m) = Inr delta)"
  shows "add_alarm title reminder_minutes ev =
           Inr (ev\<lparr>subcomponents := subcomponents ev @
                  (case reminder_minutes of
                     None \<Rightarrow> []
                   | Some m \<Rightarrow>
                       if m = 0 then []
                       else [\<lparr>action = ''DISPLAY'', alarm_description = REMINDER_PREFIX @ title,
                              trigger = - (m * 60000000)\<rparr>])\<rparr>)"
proof (cases reminder_minutes)
  case None
  then show ?thesis by (simp add: add_alarm_falsy)
next
  case (Some m)
  show ?thesis
  proof (cases "m = 0")
    case True
    with Some show ?thesis by (simp add: add_alarm_falsy)
  next
    case False
    with Some assms obtain delta where d: "timedelta 0 0 (- m) = Inr delta" by blast
    from timedelta_minutes [OF d] have "delta = - (m * 60000000)" by simp
    with add_alarm_truthy [OF False d] Some False show ?thesis by simp
  qed
qed

lemma add_rrule_result:
  assumes "\<forall>s. rule = Some s \<longrightarrow> s \<noteq> [] \<longrightarrow> (\<exists>r. from_ical s = Inr r)"
  shows "\<exists>ev'. add_rrule from_ical rule ev = Inr ev' \<and>
           (\<not> truthy rule \<longrightarrow> ev' = ev) \<and>
           (\<forall>s r. rule = Some s \<and> s \<noteq> [] \<and> from_ical s = Inr r \<longrightarrow> ev' = ev\<lparr>rrule := Some r\<rparr>)"
proof (cases "truthy rule")
  case False
  then show ?thesis by (auto simp: add_rrule_falsy)
next
  case True
  then obtain s where s: "rule = Some s" "s \<noteq> []" by (cases rule) auto
  with assms obtain r where r: "from_ical s = Inr r" by blast
  from add_rrule_truthy [of s from_ical r ev] s r show ?thesis by auto
qed

text \<open>
  The run of \<open>create_event\<close> in which nothing raises: the object saved and the event in
  it.
\<close>

lemma create_event_success:
  assumes cal: "default_calendar calendars calendar = Some cal"
    and st: "start' = (case start of None \<Rightarrow> fst (now clk) | Some s \<Rightarrow> s)"
    and en: "(case end' of None \<Rightarrow> dt_add start' (timedelta_us 0 1 0) | Some e \<Rightarrow> Inr e) = Inr end''"
    and rm: "\<forall>m. reminder_minutes = Some m \<longrightarrow> m \<noteq> 0 \<longrightarrow> (\<exists>delta. timedelta 0 0 (- m) = Inr delta)"
    and rr: "\<forall>s. rule = Some s \<longrightarrow> s \<noteq> [] \<longrightarrow> (\<exists>r. from_ical s = Inr r)"
  shows
    "\<exists>ev. create_event from_ical clk calendars title desc loc start end' reminder_minutes rule calendar =
            Inr (save_event cal \<lparr>prodid = ''-//Yandex Calendar CLI//'', version = ''2.0'',
                                 components = [ev]\<rparr>) \<and>
          comp_name ev = ''VEVENT'' \<and> summary ev = Some title \<and>
          description ev = (if desc = [] then None else Some desc) \<and>
          location ev = (if loc = [] then None else Some loc) \<and>
          dtstart ev = Some start' \<and> dtend ev = Some end'' \<and>
          (\<forall>m. reminder_minutes = Some m \<and> m \<noteq> 0 \<longrightarrow>
             subcomponents ev =
               [\<lparr>action = ''DISPLAY'', alarm_description = REMINDER_PREFIX @ title,
                 trigger = - (m * 60000000)\<rparr>]) \<and>
          (reminder_minutes = None \<or> reminder_minutes = Some 0 \<longrightarrow> subcomponents ev = []) \<and>
          (\<forall>s r. rule = Some s \<and> s \<noteq> [] \<and> from_ical s = Inr r \<longrightarrow> rrule ev = Some r) \<and>
          (\<not> truthy rule \<longrightarrow> rrule ev = None)"
proof -
  from en obtain stamp where t: "event_times clk start end' = Inr (start', end'', stamp)"
    using event_times_start [where end' = end' and start = start and clk = clk and end'' = end'']
    unfolding st by blast
  define ev3 where "ev3 = (base_event title desc loc)\<lparr>dtstart := Some start', dtend := Some end'',
                                         dtstamp := Some stamp\<rparr>"
  define ev4 where "ev4 = ev3\<lparr>subcomponents := subcomponents ev3 @
                  (case reminder_minutes of
                     None \<Rightarrow> []
                   | Some m \<Rightarrow>
                       if m = 0 then []
                       else [\<lparr>action = ''DISPLAY'', alarm_description = REMINDER_PREFIX @ title,
                              trigger = - (m * 60000000)\<rparr>])\<rparr>"
  have a: "add_alarm title reminder_minutes ev3 = Inr ev4"
    unfolding ev4_def by (rule add_alarm_result [OF rm])
  from add_rrule_result [OF rr, of ev4] obtain ev5 where
    r: "add_rrule from_ical rule ev4 = Inr ev5"
    and r0: "\<not> truthy rule \<longrightarrow> ev5 = ev4"
    and r1: "\<forall>s r. rule = Some s \<and> s \<noteq> [] \<and> from_ical s = Inr r \<longrightarrow> ev5 = ev4\<lparr>rrule := Some r\<rparr>"
    by blast
  have run: "create_event from_ical clk calendars title desc loc start end' reminder_minutes rule calendar =
            Inr (save_event cal \<lparr>prodid = ''-//Yandex Calendar CLI//'', version = ''2.0'',
                                 components = [ev5]\<rparr>)"
    using create_event_steps [OF cal t a [unfolded ev3_def] r] .
  have shape: "ev5 = ev4 \<or> (\<exists>r. ev5 = ev4\<lparr>rrule := Some r\<rparr>)"
  proof (cases "truthy rule")
    case False
    with r0 show ?thesis by simp
  next
    case True
    then obtain s where s: "rule = Some s" "s \<noteq> []" by (cases rule) auto
    with rr obtain r where "from_ical s = Inr r" by blast
    with s r1 show ?thesis by blast
  qed
  have f4: "comp_name ev4 = ''VEVENT''" "summary ev4 = Some title"
    "description ev4 = (if desc = [] then None else Some desc)"
    "location ev4 = (if loc = [] then None else Some loc)"
    "dtstart ev4 = Some start'" "dtend ev4 = Some end''" "rrule ev4 = None"
    by (simp_all add: ev4_def ev3_def base_event_fields)
  have s4: "\<forall>m. reminder_minutes = Some m \<and> m \<noteq> 0 \<longrightarrow>
             subcomponents ev4 =
               [\<lparr>action = ''DISPLAY'', alarm_description = REMINDER_PREFIX @ title,
                 trigger = - (m * 60000000)\<rparr>]"
    "reminder_minutes = None \<or> reminder_minutes = Some 0 \<longrightarrow> subcomponents ev4 = []"
    by (auto simp: ev4_def ev3_def base_event_fields)
  from shape f4 have f5: "comp_name ev5 = ''VEVENT''" "summary ev5 = Some title"
    "description ev5 = (if desc = [] then None else Some desc)"
    "location ev5 = (if loc = [] then None else Some loc)"
    "dtstart ev5 = Some start'" "dtend ev5 = Some end''"
    by auto
  from shape s4 have s5: "\<forall>m. reminder_minutes = Some m \<and> m \<noteq> 0 \<longrightarrow>
             subcomponents ev5 =
               [\<lparr>action = ''DISPLAY'', alarm_description = REMINDER_PREFIX @ title,
                 trigger = - (m * 60000000)\<rparr>]"
    "reminder_minutes = None \<or> reminder_minutes = Some 0 \<longrightarrow> subcomponents ev5 = []"
    by auto
  have "rrule ev5 = Some r" if "rule = Some s \<and> s \<noteq> [] \<and> from_ical s = Inr r" for s r
  proof -
    from r1 that have "ev5 = ev4\<lparr>rrule := Some r\<rparr>" by blast
    then show ?thesis by simp
  qed
  moreover have "\<not> truthy rule \<longrightarrow> rrule ev5 = None"
    using r0 f4(7) by simp
  ultimately have r5: "\<forall>s r. rule = Some s \<and> s \<noteq> [] \<and> from_ical s = Inr r \<longrightarrow> rrule ev5 = Some r"
    "\<not> truthy rule \<longrightarrow> rrule ev5 = None"
    by blast+
  from run f5 s5 r5 show ?thesis by blast
qed

text \<open>The runs of \<open>create_event\<close> that raise, in the order of the source.\<close>

lemma dt_add_overflow:
  "\<forall>e. dt_add t delta \<noteq> Inr e \<Longrightarrow> dt_add t delta = Inl OverflowError"
  by (simp add: dt_add_def Let_def split: if_splits)

lemma timedelta_overflow:
  "\<forall>d. timedelta days hours minutes \<noteq> Inr d \<Longrightarrow> timedelta days hours minutes = Inl OverflowError"
  by (simp add: timedelta_def Let_def split: if_splits)

lemma event_times_overflow:
  assumes "\<forall>e. dt_add (case start of None \<Rightarrow> fst (now clk) | Some s \<Rightarrow> s) (timedelta_us 0 1 0) \<noteq> Inr e"
  shows "event_times clk start None = Inl OverflowError"
proof -
  from dt_add_overflow [OF assms] show ?thesis
    by (cases start) (auto simp: event_times_def split: prod.splits)
qed

lemma create_event_end_overflow:
  assumes "\<forall>e. dt_add (case start of None \<Rightarrow> fst (now clk) | Some s \<Rightarrow> s) (timedelta_us 0 1 0) \<noteq> Inr e"
  shows "create_event from_ical clk calendars title desc loc start None reminder_minutes rule calendar =
           Inl OverflowError"
  by (simp add: create_event_def event_times_overflow [OF assms])

lemma add_alarm_overflow:
  "m \<noteq> 0 \<Longrightarrow> \<forall>d. timedelta 0 0 (- m) \<noteq> Inr d \<Longrightarrow> add_alarm title (Some m) ev = Inl OverflowError"
  using timedelta_overflow [of 0 0 "- m"] by (simp add: add_alarm_def)

lemma create_event_alarm_overflow:
  assumes "(case end' of None \<Rightarrow> dt_add (case start of None \<Rightarrow> fst (now clk) | Some s \<Rightarrow> s) (timedelta_us 0 1 0)
             | Some e \<Rightarrow> Inr e) = Inr end''"
    and "m \<noteq> 0" and "\<forall>d. timedelta 0 0 (- m) \<noteq> Inr d"
  shows "create_event from_ical clk calendars title desc loc start end' (Some m) rule calendar =
           Inl OverflowError"
proof -
  from event_times_start [OF assms(1)] obtain stamp where
    "event_times clk start end' = Inr (case start of None \<Rightarrow> fst (now clk) | Some s \<Rightarrow> s, end'', stamp)"
    by blast
  then show ?thesis
    by (simp add: create_event_def add_alarm_overflow [OF assms(2,3)])
qed

lemma add_rrule_rejected:
  "s \<noteq> [] \<Longrightarrow> from_ical s = Inl err \<Longrightarrow> add_rrule from_ical (Some s) ev = Inl err"
  by (simp add: add_rrule_def)

lemma create_event_rule_rejected:
  assumes "(case end' of None \<Rightarrow> dt_add (case start of None \<Rightarrow> fst (now clk) | Some s \<Rightarrow> s) (timedelta_us 0 1 0)
             | Some e \<Rightarrow> Inr e) = Inr end''"
    and "\<forall>m. reminder_minutes = Some m \<longrightarrow> m \<noteq> 0 \<longrightarrow> (\<exists>delta. timedelta 0 0 (- m) = Inr delta)"
    and "s \<noteq> []" and "from_ical s = Inl err"
  shows "create_event from_ical clk calendars title desc loc start end' reminder_minutes (Some s) calendar =
           Inl err"
proof -
  from event_times_start [OF assms(1)] obtain stamp where
    "event_times clk start end' = Inr (case start of None \<Rightarrow> fst (now clk) | Some s \<Rightarrow> s, end'', stamp)"
    by blast
  then show ?thesis
    by (simp add: create_event_def add_alarm_result [OF assms(2)] add_rrule_rejected [of s from_ical err, OF assms(3,4)])
qed

text \<open>
  C7, as the code has it, for a calendar that is given or that the list has. With \<open>end\<close>
  omitted and \<open>start\<close> plus one hour out of range, \<open>create_event\<close> raises OverflowError;
  else, with a reminder that is not 0 and whose offset is out of range, it raises
  OverflowError; else, with a non-empty rule that the library's parser rejects, it raises
  the parser's error; and in each of these cases it saves nothing. Otherwise it saves one
  calendar object with one event in it, which has the title, the description and the
  location if not empty, \<open>start\<close> (the clock's reading when omitted) and \<open>end\<close>
  (\<open>start\<close> plus one hour when omitted); for a reminder that is not 0 it has exactly one
  alarm, with action \<^verbatim>\<open>DISPLAY\<close> and the trigger that many minutes before \<open>start\<close>,
  and no alarm for a reminder omitted or 0; for a non-empty rule it has what the parser
  returns for exactly that text, and no rule for one omitted or empty.
\<close>

theorem create_event_builds:
  assumes cal: "default_calendar calendars calendar = Some cal"
    and st: "start' = (case start of None \<Rightarrow> fst (now clk) | Some s \<Rightarrow> s)"
  shows
    "(end' = None \<and> (\<forall>e. dt_add start' (timedelta_us 0 1 0) \<noteq> Inr e) \<longrightarrow>
        create_event from_ical clk calendars title desc loc start end' reminder_minutes rule calendar =
          Inl OverflowError) \<and>
     (\<forall>end'' m.
        (case end' of None \<Rightarrow> dt_add start' (timedelta_us 0 1 0) | Some e \<Rightarrow> Inr e) = Inr end'' \<and>
        reminder_minutes = Some m \<and> m \<noteq> 0 \<and> (\<forall>d. timedelta 0 0 (- m) \<noteq> Inr d) \<longrightarrow>
        create_event from_ical clk calendars title desc loc start end' reminder_minutes rule calendar =
          Inl OverflowError) \<and>
     (\<forall>end'' s err.
        (case end' of None \<Rightarrow> dt_add start' (timedelta_us 0 1 0) | Some e \<Rightarrow> Inr e) = Inr end'' \<and>
        (\<forall>m. reminder_minutes = Some m \<longrightarrow> m \<noteq> 0 \<longrightarrow> (\<exists>delta. timedelta 0 0 (- m) = Inr delta)) \<and>
        rule = Some s \<and> s \<noteq> [] \<and> from_ical s = Inl err \<longrightarrow>
        create_event from_ical clk calendars title desc loc start end' reminder_minutes rule calendar =
          Inl err) \<and>
     (\<forall>end''.
        (case end' of None \<Rightarrow> dt_add start' (timedelta_us 0 1 0) | Some e \<Rightarrow> Inr e) = Inr end'' \<and>
        (\<forall>m. reminder_minutes = Some m \<longrightarrow> m \<noteq> 0 \<longrightarrow> (\<exists>delta. timedelta 0 0 (- m) = Inr delta)) \<and>
        (\<forall>s. rule = Some s \<longrightarrow> s \<noteq> [] \<longrightarrow> (\<exists>r. from_ical s = Inr r)) \<longrightarrow>
        (\<exists>ev. create_event from_ical clk calendars title desc loc start end' reminder_minutes rule calendar =
                Inr (save_event cal \<lparr>prodid = ''-//Yandex Calendar CLI//'', version = ''2.0'',
                                     components = [ev]\<rparr>) \<and>
              comp_name ev = ''VEVENT'' \<and> summary ev = Some title \<and>
              description ev = (if desc = [] then None else Some desc) \<and>
              location ev = (if loc = [] then None else Some loc) \<and>
              dtstart ev = Some start' \<and> dtend ev = Some end'' \<and>
              (\<forall>m. reminder_minutes = Some m \<and> m \<noteq> 0 \<longrightarrow>
                 subcomponents ev =
                   [\<lparr>action = ''DISPLAY'', alarm_description = REMINDER_PREFIX @ title,
                     trigger = - (m * 60000000)\<rparr>]) \<and>
              (reminder_minutes = None \<or> reminder_minutes = Some 0 \<longrightarrow> subcomponents ev = []) \<and>
              (\<forall>s r. rule = Some s \<and> s \<noteq> [] \<and> from_ical s = Inr r \<longrightarrow> rrule ev = Some r) \<and>
              (\<not> truthy rule \<longrightarrow> rrule ev = None)))"
proof (intro conjI allI impI)
  assume "end' = None \<and> (\<forall>e. dt_add start' (timedelta_us 0 1 0) \<noteq> Inr e)"
  then show "create_event from_ical clk calendars title desc loc start end' reminder_minutes rule calendar =
          Inl OverflowError"
    using create_event_end_overflow [where start = start and clk = clk] unfolding st by simp
next
  fix end'' m
  assume "(case end' of None \<Rightarrow> dt_add start' (timedelta_us 0 1 0) | Some e \<Rightarrow> Inr e) = Inr end'' \<and>
        reminder_minutes = Some m \<and> m \<noteq> 0 \<and> (\<forall>d. timedelta 0 0 (- m) \<noteq> Inr d)"
  then show "create_event from_ical clk calendars title desc loc start end' reminder_minutes rule calendar =
          Inl OverflowError"
    using create_event_alarm_overflow [where end' = end' and start = start and clk = clk and end'' = end'' and m = m]
    unfolding st by simp
next
  fix end'' s err
  assume "(case end' of None \<Rightarrow> dt_add start' (timedelta_us 0 1 0) | Some e \<Rightarrow> Inr e) = Inr end'' \<and>
        (\<forall>m. reminder_minutes = Some m \<longrightarrow> m \<noteq> 0 \<longrightarrow> (\<exists>delta. timedelta 0 0 (- m) = Inr delta)) \<and>
        rule = Some s \<and> s \<noteq> [] \<and> from_ical s = Inl err"
  then show "create_event from_ical clk calendars title desc loc start end' reminder_minutes rule calendar =
          Inl err"
    using create_event_rule_rejected [where end' = end' and start = start and clk = clk
        and end'' = end'' and reminder_minutes = reminder_minutes and s = s and from_ical = from_ical
        and err = err]
    unfolding st by simp
next
  fix end''
  assume "(case end' of None \<Rightarrow> dt_add start' (timedelta_us 0 1 0) | Some e \<Rightarrow> Inr e) = Inr end'' \<and>
        (\<forall>m. reminder_minutes = Some m \<longrightarrow> m \<noteq> 0 \<longrightarrow> (\<exists>delta. timedelta 0 0 (- m) = Inr delta)) \<and>
        (\<forall>s. rule = Some s \<longrightarrow> s \<noteq> [] \<longrightarrow> (\<exists>r. from_ical s = Inr r))"
  then have en: "(case end' of None \<Rightarrow> dt_add start' (timedelta_us 0 1 0) | Some e \<Rightarrow> Inr e) = Inr end''"
    and rm: "\<forall>m. reminder_minutes = Some m \<longrightarrow> m \<noteq> 0 \<longrightarrow> (\<exists>delta. timedelta 0 0 (- m) = Inr delta)"
    and rr: "\<forall>s. rule = Some s \<longrightarrow> s \<noteq> [] \<longrightarrow> (\<exists>r. from_ical s = Inr r)"
    by blast+
  show "\<exists>ev. create_event from_ical clk calendars title desc loc start end' reminder_minutes rule calendar =
                Inr (save_event cal \<lparr>prodid = ''-//Yandex Calendar CLI//'', version = ''2.0'',
                                     components = [ev]\<rparr>) \<and>
              comp_name ev = ''VEVENT'' \<and> summary ev = Some title \<and>
              description ev = (if desc = [] then None else Some desc) \<and>
              location ev = (if loc = [] then None else Some loc) \<and>
              dtstart ev = Some start' \<and> dtend ev = Some end'' \<and>
              (\<forall>m. reminder_minutes = Some m \<and> m \<noteq> 0 \<longrightarrow>
                 subcomponents ev =
                   [\<lparr>action = ''DISPLAY'', alarm_description = REMINDER_PREFIX @ title,
                     trigger = - (m * 60000000)\<rparr>]) \<and>
              (reminder_minutes = None \<or> reminder_minutes = Some 0 \<longrightarrow> subcomponents ev = []) \<and>
              (\<forall>s r. rule = Some s \<and> s \<noteq> [] \<and> from_ical s = Inr r \<longrightarrow> rrule ev = Some r) \<and>
              (\<not> truthy rule \<longrightarrow> rrule ev = None)"
    by (rule create_event_success [OF cal st en rm rr])
qed

text \<open>
  C7 as stated fails on supplied values. A reminder of 0 gives an event with no alarm;
  the empty rule gives an event with no rule, whatever the parser accepts; a rule that
  the parser rejects is not attached, the call raises the parser's error; with \<open>end\<close>
  omitted and \<open>start\<close> at 23:30 of the last day, and with a reminder whose offset is
  beyond the range of a duration, the call raises OverflowError.
\<close>

theorem create_event_supplied_counterexample:
  "create_event (\<lambda>s. Inl ValueError) (fixed_clock \<lparr>dt_ordinal = 739617, dt_micro = 0\<rparr>) []
     ''Demo'' ''D'' ''L''
     (Some \<lparr>dt_ordinal = 739617, dt_micro = 36000000000\<rparr>)
     (Some \<lparr>dt_ordinal = 739617, dt_micro = 39600000000\<rparr>)
     (Some 0) None (Some (FakeCalendar ''cal'' ''https://x/cal'' [])) =
   Inr (save_event (FakeCalendar ''cal'' ''https://x/cal'' [])
          \<lparr>prodid = ''-//Yandex Calendar CLI//'', version = ''2.0'',
           components =
             [IEvent\<lparr>summary := Some ''Demo'', description := Some ''D'', location := Some ''L'',
                     dtstart := Some \<lparr>dt_ordinal = 739617, dt_micro = 36000000000\<rparr>,
                     dtend := Some \<lparr>dt_ordinal = 739617, dt_micro = 39600000000\<rparr>,
                     dtstamp := Some \<lparr>dt_ordinal = 739617, dt_micro = 0\<rparr>,
                     subcomponents := []\<rparr>]\<rparr>) \<and>
   create_event (\<lambda>s. Inr [(''FREQ'', [''WEEKLY''])]) (fixed_clock \<lparr>dt_ordinal = 739617, dt_micro = 0\<rparr>) []
     ''Demo'' ''D'' ''L''
     (Some \<lparr>dt_ordinal = 739617, dt_micro = 36000000000\<rparr>)
     (Some \<lparr>dt_ordinal = 739617, dt_micro = 39600000000\<rparr>)
     None (Some []) (Some (FakeCalendar ''cal'' ''https://x/cal'' [])) =
   Inr (save_event (FakeCalendar ''cal'' ''https://x/cal'' [])
          \<lparr>prodid = ''-//Yandex Calendar CLI//'', version = ''2.0'',
           components =
             [IEvent\<lparr>summary := Some ''Demo'', description := Some ''D'', location := Some ''L'',
                     dtstart := Some \<lparr>dt_ordinal = 739617, dt_micro = 36000000000\<rparr>,
                     dtend := Some \<lparr>dt_ordinal = 739617, dt_micro = 39600000000\<rparr>,
                     dtstamp := Some \<lparr>dt_ordinal = 739617, dt_micro = 0\<rparr>,
                     rrule := None\<rparr>]\<rparr>) \<and>
   create_event (\<lambda>s. Inl ValueError) (fixed_clock \<lparr>dt_ordinal = 739617, dt_micro = 0\<rparr>) []
     ''Demo'' ''D'' ''L''
     (Some \<lparr>dt_ordinal = 739617, dt_micro = 36000000000\<rparr>)
     (Some \<lparr>dt_ordinal = 739617, dt_micro = 39600000000\<rparr>)
     None (Some ''x'') (Some (FakeCalendar ''cal'' ''https://x/cal'' [])) =
   Inl ValueError \<and>
   create_event (\<lambda>s. Inl ValueError) (fixed_clock \<lparr>dt_ordinal = 739617, dt_micro = 0\<rparr>) []
     ''Demo'' ''D'' ''L''
     (Some \<lparr>dt_ordinal = 3652059, dt_micro = 84600000000\<rparr>)
     None None None (Some (FakeCalendar ''cal'' ''https://x/cal'' [])) =
   Inl OverflowError \<and>
   create_event (\<lambda>s. Inl ValueError) (fixed_clock \<lparr>dt_ordinal = 739617, dt_micro = 0\<rparr>) []
     ''Demo'' ''D'' ''L''
     (Some \<lparr>dt_ordinal = 739617, dt_micro = 36000000000\<rparr>)
     (Some \<lparr>dt_ordinal = 739617, dt_micro = 39600000000\<rparr>)
     (Some 1439999998561) None (Some (FakeCalendar ''cal'' ''https://x/cal'' [])) =
   Inl OverflowError"
  by (simp add: create_event_def event_times_def add_alarm_def add_rrule_def base_event_def
      default_calendar_def now_def fixed_clock_def IEvent_def dt_add_def timedelta_def
      timedelta_us_def US_PER_DAY_def MAXORDINAL_def MAX_DELTA_DAYS_def)

theorem create_event_builds_witness:
  "default_calendar [FakeCalendar ''cal'' ''https://x/cal'' []] None =
     Some (FakeCalendar ''cal'' ''https://x/cal'' []) \<and>
   dt_add \<lparr>dt_ordinal = 739617, dt_micro = 36000000000\<rparr> (timedelta_us 0 1 0) =
     Inr \<lparr>dt_ordinal = 739617, dt_micro = 39600000000\<rparr> \<and>
   timedelta 0 0 (- 15) = Inr (- 900000000) \<and>
   (\<exists>ev. create_event (\<lambda>s. Inr [(''FREQ'', [''WEEKLY'']), (''BYDAY'', [''WE''])])
           (fixed_clock \<lparr>dt_ordinal = 739617, dt_micro = 36000000000\<rparr>)
           [FakeCalendar ''cal'' ''https://x/cal'' []]
           ''Demo'' ''D'' ''L'' None None (Some 15) (Some ''FREQ=WEEKLY;BYDAY=WE'') None =
         Inr (save_event (FakeCalendar ''cal'' ''https://x/cal'' [])
                \<lparr>prodid = ''-//Yandex Calendar CLI//'', version = ''2.0'', components = [ev]\<rparr>) \<and>
         summary ev = Some ''Demo'' \<and>
         dtstart ev = Some \<lparr>dt_ordinal = 739617, dt_micro = 36000000000\<rparr> \<and>
         dtend ev = Some \<lparr>dt_ordinal = 739617, dt_micro = 39600000000\<rparr> \<and>
         subcomponents ev =
           [\<lparr>action = ''DISPLAY'', alarm_description = REMINDER_PREFIX @ ''Demo'',
             trigger = - 900000000\<rparr>] \<and>
         rrule ev = Some [(''FREQ'', [''WEEKLY'']), (''BYDAY'', [''WE''])]) \<and>
   create_event (\<lambda>s. Inl ValueError)
     (fixed_clock \<lparr>dt_ordinal = 739617, dt_micro = 36000000000\<rparr>)
     [FakeCalendar ''cal'' ''https://x/cal'' []]
     ''Demo'' ''D'' ''L'' (Some \<lparr>dt_ordinal = 3652059, dt_micro = 84600000000\<rparr>) None None None None =
     Inl OverflowError \<and>
   create_event (\<lambda>s. Inl ValueError)
     (fixed_clock \<lparr>dt_ordinal = 739617, dt_micro = 36000000000\<rparr>)
     [FakeCalendar ''cal'' ''https://x/cal'' []]
     ''Demo'' ''D'' ''L'' None None (Some 1439999998561) None None =
     Inl OverflowError \<and>
   create_event (\<lambda>s. Inl ValueError)
     (fixed_clock \<lparr>dt_ordinal = 739617, dt_micro = 36000000000\<rparr>)
     [FakeCalendar ''cal'' ''https://x/cal'' []]
     ''Demo'' ''D'' ''L'' None None (Some 15) (Some ''x'') None =
     Inl ValueError"
proof -
  let ?cal = "FakeCalendar ''cal'' ''https://x/cal'' []"
  let ?t = "\<lparr>dt_ordinal = 739617, dt_micro = 36000000000\<rparr>"
  let ?e = "\<lparr>dt_ordinal = 739617, dt_micro = 39600000000\<rparr>"
  let ?last = "\<lparr>dt_ordinal = 3652059, dt_micro = 84600000000\<rparr>"
  let ?clk = "fixed_clock ?t"
  let ?f = "\<lambda>s::string. (Inr [(''FREQ'', [''WEEKLY'']), (''BYDAY'', [''WE''])] :: py_error + vrecur)"
  let ?g = "\<lambda>s::string. (Inl ValueError :: py_error + vrecur)"
  have cal: "default_calendar [?cal] None = Some ?cal" by (rule one_calendar_default)
  have st: "?t = (case (None :: datetime option) of None \<Rightarrow> fst (now ?clk) | Some s \<Rightarrow> s)"
    by (simp add: now_def fixed_clock_def)
  have st': "?last = (case Some ?last of None \<Rightarrow> fst (now ?clk) | Some s \<Rightarrow> s)"
    by simp
  have add: "dt_add ?t (timedelta_us 0 1 0) = Inr ?e"
    by (simp add: dt_add_def timedelta_us_def US_PER_DAY_def MAXORDINAL_def)
  then have en: "(case (None :: datetime option) of None \<Rightarrow> dt_add ?t (timedelta_us 0 1 0) | Some e \<Rightarrow> Inr e) = Inr ?e"
    by simp
  have over: "\<forall>e. dt_add ?last (timedelta_us 0 1 0) \<noteq> Inr e"
    by (simp add: dt_add_def timedelta_us_def US_PER_DAY_def MAXORDINAL_def)
  have td: "timedelta 0 0 (- 15) = Inr (- 900000000)"
    by (simp add: timedelta_def timedelta_us_def US_PER_DAY_def MAX_DELTA_DAYS_def)
  then have rm: "\<forall>m. Some (15::int) = Some m \<longrightarrow> m \<noteq> 0 \<longrightarrow> (\<exists>delta. timedelta 0 0 (- m) = Inr delta)"
    by simp
  have big: "\<forall>d. timedelta 0 0 (- 1439999998561) \<noteq> Inr d"
    by (simp add: timedelta_def timedelta_us_def US_PER_DAY_def MAX_DELTA_DAYS_def)
  have rr: "\<forall>s. Some ''FREQ=WEEKLY;BYDAY=WE'' = Some s \<longrightarrow> s \<noteq> [] \<longrightarrow> (\<exists>r. ?f s = Inr r)"
    by simp
  from create_event_builds [OF cal st, where end' = None and reminder_minutes = "Some 15"
      and rule = "Some ''FREQ=WEEKLY;BYDAY=WE''" and from_ical = ?f and title = "''Demo''"
      and desc = "''D''" and loc = "''L''"] en rm rr
  obtain ev where
    "create_event ?f ?clk [?cal] ''Demo'' ''D'' ''L'' None None (Some 15) (Some ''FREQ=WEEKLY;BYDAY=WE'') None =
       Inr (save_event ?cal \<lparr>prodid = ''-//Yandex Calendar CLI//'', version = ''2.0'', components = [ev]\<rparr>)"
    "summary ev = Some ''Demo''" "dtstart ev = Some ?t" "dtend ev = Some ?e"
    "subcomponents ev =
       [\<lparr>action = ''DISPLAY'', alarm_description = REMINDER_PREFIX @ ''Demo'', trigger = - 900000000\<rparr>]"
    "rrule ev = Some [(''FREQ'', [''WEEKLY'']), (''BYDAY'', [''WE''])]"
    by auto
  then have 1: "\<exists>ev. create_event ?f ?clk [?cal] ''Demo'' ''D'' ''L'' None None (Some 15)
           (Some ''FREQ=WEEKLY;BYDAY=WE'') None =
         Inr (save_event ?cal
                \<lparr>prodid = ''-//Yandex Calendar CLI//'', version = ''2.0'', components = [ev]\<rparr>) \<and>
         summary ev = Some ''Demo'' \<and> dtstart ev = Some ?t \<and> dtend ev = Some ?e \<and>
         subcomponents ev =
           [\<lparr>action = ''DISPLAY'', alarm_description = REMINDER_PREFIX @ ''Demo'',
             trigger = - 900000000\<rparr>] \<and>
         rrule ev = Some [(''FREQ'', [''WEEKLY'']), (''BYDAY'', [''WE''])]"
    by blast
  from create_event_builds [OF cal st', where end' = None and reminder_minutes = None
      and rule = None and from_ical = ?g and title = "''Demo''" and desc = "''D''" and loc = "''L''"]
    over
  have 2: "create_event ?g ?clk [?cal] ''Demo'' ''D'' ''L'' (Some ?last) None None None None =
     Inl OverflowError"
    by blast
  from create_event_builds [OF cal st, where end' = None and reminder_minutes = "Some 1439999998561"
      and rule = None and from_ical = ?g and title = "''Demo''" and desc = "''D''" and loc = "''L''"]
    en big
  have 3: "create_event ?g ?clk [?cal] ''Demo'' ''D'' ''L'' None None (Some 1439999998561) None None =
     Inl OverflowError"
    by simp
  from create_event_builds [OF cal st, where end' = None and reminder_minutes = "Some 15"
      and rule = "Some ''x''" and from_ical = ?g and title = "''Demo''" and desc = "''D''" and loc = "''L''"]
    en rm
  have 4: "create_event ?g ?clk [?cal] ''Demo'' ''D'' ''L'' None None (Some 15) (Some ''x'') None =
     Inl ValueError"
    by simp
  from cal add td 1 2 3 4 show ?thesis by blast
qed


end
